theory Spec2Isabelle
  imports Main
begin

section \<open>Errors\<close>

text \<open>
  Every \<^verbatim>\<open>throw new Error(msg)\<close> and every rejected promise of the sources is a value
  of this type; the string is the message of the source.  JavaScript numbers that hold
  integers (offsets, sizes, timestamps, counters, flags) are modelled as \<^typ>\<open>int\<close>; the
  sums the sample-position resolver forms are rounded as the sum of two doubles is (see
  \<open>jsAdd\<close> below).
\<close>

datatype error = Error string | TypeError string

section \<open>Fragmented MP4: sample positions of a moof (get-samples-from-moof)\<close>

record TfhdBox =
  trackId :: int
  defaultSampleDuration :: "int option"
  defaultSampleSize :: "int option"
  defaultSampleFlags :: "int option"

record TfdtBox =
  baseMediaDecodeTime :: int

record TRunSample =
  sampleDuration :: "int option"
  sampleSize :: "int option"
  sampleFlags :: "int option"

record TrunBox =
  dataOffset :: "int option"
  firstSampleFlags :: "int option"
  samples :: "TRunSample list"

record SamplePosition =
  sp_offset :: int
  sp_dts :: int
  sp_cts :: int
  sp_duration :: int
  sp_isKeyframe :: bool
  sp_size :: int

text \<open>
  The parse tree.  A box of \<^verbatim>\<open>type === 'regular-box'\<close> carries its four-character
  \<^verbatim>\<open>boxType\<close>, its byte offset and its children; the typed leaves the resolver reads are
  constructors of their own, every other kind of box is \<open>OtherBox\<close>.
\<close>

datatype IsoBaseMediaBox =
    RegularBox string int "IsoBaseMediaBox list"
  | TfhdLeaf TfhdBox
  | TfdtLeaf TfdtBox
  | TrunLeaf TrunBox
  | OtherBox string

fun isRegularBox :: "IsoBaseMediaBox \<Rightarrow> bool" where
  "isRegularBox (RegularBox t off cs) = True"
| "isRegularBox b = False"

fun boxType :: "IsoBaseMediaBox \<Rightarrow> string" where
  "boxType (RegularBox t off cs) = t"
| "boxType b = []"

fun boxOffset :: "IsoBaseMediaBox \<Rightarrow> int" where
  "boxOffset (RegularBox t off cs) = off"
| "boxOffset b = 0"

fun children :: "IsoBaseMediaBox \<Rightarrow> IsoBaseMediaBox list" where
  "children (RegularBox t off cs) = cs"
| "children b = []"

text \<open>
  The helpers \<^verbatim>\<open>getTfhdBox\<close>, \<^verbatim>\<open>getTfdtBox\<close> and \<^verbatim>\<open>getTrunBoxes\<close> are imported from
  \<^verbatim>\<open>./traversal\<close>, which is not among the sources.  The resolver takes them as a
  parameter, so every theorem below holds for whatever they return.
\<close>

record traversal =
  getTfhdBox :: "IsoBaseMediaBox \<Rightarrow> TfhdBox option"
  getTfdtBox :: "IsoBaseMediaBox \<Rightarrow> TfdtBox option"
  getTrunBoxes :: "IsoBaseMediaBox \<Rightarrow> TrunBox list"

text \<open>\<^verbatim>\<open>a ?? b\<close> on a nullable number.\<close>

definition nullish :: "'a option \<Rightarrow> 'a option \<Rightarrow> 'a option" where
  "nullish a b = (case a of Some v \<Rightarrow> Some v | None \<Rightarrow> b)"

definition nullish0 :: "int option \<Rightarrow> int" where
  "nullish0 a = (case a of Some v \<Rightarrow> v | None \<Rightarrow> 0)"

text \<open>
  \<^verbatim>\<open>x ? x : y\<close> on a nullable number: \<^verbatim>\<open>null\<close> and \<^verbatim>\<open>0\<close> are both falsy.
\<close>

definition truthy :: "int option \<Rightarrow> bool" where
  "truthy a = (case a of Some v \<Rightarrow> v \<noteq> 0 | None \<Rightarrow> False)"

text \<open>
  \<^verbatim>\<open>!((sampleFlags >> 16) & 0x1)\<close>.  The shift works on the 32-bit two's complement
  of the number, which has the same bit 16 as the integer itself.
\<close>

definition keyframeOfFlags :: "int \<Rightarrow> bool" where
  "keyframeOfFlags fl = ((fl div 65536) mod 2 = 0)"

text \<open>
  \<^verbatim>\<open>a + b\<close> on numbers.  A JavaScript number is an IEEE-754 double, with 53 significant
  bits; the fields of a traf and the moof offset are doubles that hold integers, and the
  sum of two of them is the exact sum rounded to the nearest double, ties to the even
  significand.  \<open>ulpShift n\<close> is the
  number of low bits a double drops when it holds \<open>n\<close>.  Every integer up to \<open>2^53\<close> in
  magnitude is a double, so sums in that range are exact (lemma \<open>jsAdd_exact\<close>).  A sum of
  magnitude \<open>2^1024\<close> or more, which JavaScript makes \<^verbatim>\<open>Infinity\<close>, is outside the model: it
  takes more than \<open>2^900\<close> samples to reach it from the fields of a file.
\<close>

fun ulpShift :: "nat \<Rightarrow> nat" where
  "ulpShift n = (if n < 9007199254740992 then 0 else Suc (ulpShift (n div 2)))"

declare ulpShift.simps [simp del]

definition roundNat :: "nat \<Rightarrow> nat" where
  "roundNat n =
    (let s = ulpShift n;
         q = n div 2 ^ s;
         r = n mod 2 ^ s
     in (if 2 ^ s < 2 * r \<or> (2 * r = 2 ^ s \<and> odd q) then q + 1 else q) * 2 ^ s)"

definition roundToDouble :: "int \<Rightarrow> int" where
  "roundToDouble x = (if x < 0 then - int (roundNat (nat (- x))) else int (roundNat (nat x)))"

definition jsAdd :: "int \<Rightarrow> int \<Rightarrow> int" where
  "jsAdd a b = roundToDouble (a + b)"

text \<open>
  The body of the inner loop of \<^verbatim>\<open>getSamplesFromTraf\<close> for the sample with index \<open>i\<close>
  of \<open>trunBox\<close>, at the running \<open>offset\<close> and \<open>time\<close>.
\<close>

definition sampleStep ::
  "TfhdBox option \<Rightarrow> TfdtBox option \<Rightarrow> int \<Rightarrow> TrunBox \<Rightarrow> nat \<Rightarrow> TRunSample \<Rightarrow> int \<Rightarrow> int
    \<Rightarrow> error + SamplePosition" where
  "sampleStep tfhdBox tfdtBox moofOffset trunBox i sample offset time =
    (let defaultSampleDuration = Option.bind tfhdBox defaultSampleDuration;
         defaultSampleSize = Option.bind tfhdBox defaultSampleSize;
         defaultSampleFalgs = Option.bind tfhdBox defaultSampleFlags
     in case nullish (sampleDuration sample) defaultSampleDuration of
          None \<Rightarrow> Inl (Error ''Expected duration'')
        | Some duration \<Rightarrow>
     (case nullish (sampleSize sample) defaultSampleSize of
          None \<Rightarrow> Inl (Error ''Expected size'')
        | Some size' \<Rightarrow>
     (let isFirstSample = (i = 0);
          sampleFlags' =
            (if truthy (sampleFlags sample) then sampleFlags sample
             else if isFirstSample \<and> firstSampleFlags trunBox \<noteq> None
               then firstSampleFlags trunBox
             else defaultSampleFalgs)
      in case sampleFlags' of
           None \<Rightarrow> Inl (Error ''Expected sample flags'')
         | Some fl \<Rightarrow>
             Inr \<lparr> sp_offset = jsAdd (jsAdd offset (nullish0 (dataOffset trunBox))) moofOffset,
                   sp_dts = jsAdd time (nullish0 (map_option baseMediaDecodeTime tfdtBox)),
                   sp_cts = jsAdd time (nullish0 (map_option baseMediaDecodeTime tfdtBox)),
                   sp_duration = duration,
                   sp_isKeyframe = keyframeOfFlags fl,
                   sp_size = size' \<rparr>)))"

text \<open>
  The inner loop \<^verbatim>\<open>for (const sample of trunBox.samples)\<close>.  The loop state is
  \<open>(offset, time, samples)\<close>; a throw leaves the loop with the error.
\<close>

fun samplesLoop ::
  "TfhdBox option \<Rightarrow> TfdtBox option \<Rightarrow> int \<Rightarrow> TrunBox \<Rightarrow> nat \<Rightarrow> TRunSample list
    \<Rightarrow> int \<times> int \<times> SamplePosition list \<Rightarrow> error + (int \<times> int \<times> SamplePosition list)" where
  "samplesLoop tfhdBox tfdtBox moofOffset trunBox i [] st = Inr st"
| "samplesLoop tfhdBox tfdtBox moofOffset trunBox i (sample # rest) (offset, time, acc) =
    (case sampleStep tfhdBox tfdtBox moofOffset trunBox i sample offset time of
       Inl e \<Rightarrow> Inl e
     | Inr samplePosition \<Rightarrow>
         samplesLoop tfhdBox tfdtBox moofOffset trunBox (Suc i) rest
           (jsAdd offset (sp_size samplePosition), jsAdd time (sp_duration samplePosition),
            acc @ [samplePosition]))"

text \<open>The outer loop \<^verbatim>\<open>for (const trunBox of trunBoxes)\<close>.\<close>

fun trunLoop ::
  "TfhdBox option \<Rightarrow> TfdtBox option \<Rightarrow> int \<Rightarrow> TrunBox list
    \<Rightarrow> int \<times> int \<times> SamplePosition list \<Rightarrow> error + (int \<times> int \<times> SamplePosition list)" where
  "trunLoop tfhdBox tfdtBox moofOffset [] st = Inr st"
| "trunLoop tfhdBox tfdtBox moofOffset (trunBox # rest) st =
    (case samplesLoop tfhdBox tfdtBox moofOffset trunBox 0 (samples trunBox) st of
       Inl e \<Rightarrow> Inl e
     | Inr st' \<Rightarrow> trunLoop tfhdBox tfdtBox moofOffset rest st')"

definition getSamplesFromTraf ::
  "traversal \<Rightarrow> IsoBaseMediaBox \<Rightarrow> int \<Rightarrow> error + SamplePosition list" where
  "getSamplesFromTraf tr trafSegment moofOffset =
    (if \<not> isRegularBox trafSegment \<or> boxType trafSegment \<noteq> ''traf''
     then Inl (Error ''Expected traf-box'')
     else
       (case trunLoop (getTfhdBox tr trafSegment) (getTfdtBox tr trafSegment) moofOffset
               (getTrunBoxes tr trafSegment) (0, 0, []) of
          Inl e \<Rightarrow> Inl e
        | Inr (offset, time, acc) \<Rightarrow> Inr acc))"

text \<open>
  \<^verbatim>\<open>trafs.map(...)\<close> of \<^verbatim>\<open>getSamplesFromMoof\<close> followed by \<^verbatim>\<open>.flat(1)\<close>: the first throw
  of a mapped traf is the result.
\<close>

fun mapTrafs :: "traversal \<Rightarrow> int \<Rightarrow> int \<Rightarrow> IsoBaseMediaBox list \<Rightarrow> error + SamplePosition list" where
  "mapTrafs tr moofOffset wanted [] = Inr []"
| "mapTrafs tr moofOffset wanted (traf # rest) =
    (case (if map_option trackId (getTfhdBox tr traf) = Some wanted
           then getSamplesFromTraf tr traf moofOffset else Inr []) of
       Inl e \<Rightarrow> Inl e
     | Inr here \<Rightarrow>
         (case mapTrafs tr moofOffset wanted rest of
            Inl e \<Rightarrow> Inl e
          | Inr others \<Rightarrow> Inr (here @ others)))"

definition getSamplesFromMoof ::
  "traversal \<Rightarrow> IsoBaseMediaBox \<Rightarrow> int \<Rightarrow> error + SamplePosition list" where
  "getSamplesFromMoof tr segment wanted =
    (if \<not> isRegularBox segment then Inl (Error ''Expected moof-box'')
     else mapTrafs tr (boxOffset segment) wanted
            (filter (\<lambda>c. isRegularBox c \<and> boxType c = ''traf'') (children segment)))"

text \<open>
  An instance of the traversal helpers for concrete inputs: the first \<^verbatim>\<open>tfhd\<close> child,
  the first \<^verbatim>\<open>tfdt\<close> child and all \<^verbatim>\<open>trun\<close> children of the box, in file order.
\<close>

fun firstTfhd :: "IsoBaseMediaBox list \<Rightarrow> TfhdBox option" where
  "firstTfhd [] = None"
| "firstTfhd (TfhdLeaf b # cs) = Some b"
| "firstTfhd (c # cs) = firstTfhd cs"

fun firstTfdt :: "IsoBaseMediaBox list \<Rightarrow> TfdtBox option" where
  "firstTfdt [] = None"
| "firstTfdt (TfdtLeaf b # cs) = Some b"
| "firstTfdt (c # cs) = firstTfdt cs"

fun allTruns :: "IsoBaseMediaBox list \<Rightarrow> TrunBox list" where
  "allTruns [] = []"
| "allTruns (TrunLeaf b # cs) = b # allTruns cs"
| "allTruns (c # cs) = allTruns cs"

definition childTraversal :: traversal where
  "childTraversal =
    \<lparr> getTfhdBox = (\<lambda>b. firstTfhd (children b)),
      getTfdtBox = (\<lambda>b. firstTfdt (children b)),
      getTrunBoxes = (\<lambda>b. allTruns (children b)) \<rparr>"

text \<open>
  For the statements: the samples of a traf in emission order, each paired with the
  trun it belongs to.
\<close>

definition trafRows :: "TrunBox list \<Rightarrow> (TrunBox \<times> TRunSample) list" where
  "trafRows truns = concat (map (\<lambda>t. map (\<lambda>s. (t, s)) (samples t)) truns)"

text \<open>
  For the statements: the duration and the size a row resolves to by the \<^verbatim>\<open>??\<close> chain
  (0 stands for the case where neither the sample nor the tfhd has one, in which the
  resolver throws).
\<close>

definition rowDuration :: "TfhdBox option \<Rightarrow> TrunBox \<times> TRunSample \<Rightarrow> int" where
  "rowDuration tfhdBox row =
    nullish0 (nullish (sampleDuration (snd row)) (Option.bind tfhdBox defaultSampleDuration))"

definition rowSize :: "TfhdBox option \<Rightarrow> TrunBox \<times> TRunSample \<Rightarrow> int" where
  "rowSize tfhdBox row =
    nullish0 (nullish (sampleSize (snd row)) (Option.bind tfhdBox defaultSampleSize))"

text \<open>
  The bounds under which every sum the resolver forms for a traf is exact: durations,
  sizes, base decode time and moof offset are not negative, the last decode time does not
  exceed \<open>2^53\<close>, and neither does the end of the data with any data offset of the traf.
\<close>

definition withinSafeIntegers ::
  "TfhdBox option \<Rightarrow> TfdtBox option \<Rightarrow> TrunBox list \<Rightarrow> int \<Rightarrow> bool" where
  "withinSafeIntegers tfhdBox tfdtBox truns moofOffset =
    (list_all (\<lambda>row. 0 \<le> rowDuration tfhdBox row \<and> 0 \<le> rowSize tfhdBox row) (trafRows truns)
     \<and> 0 \<le> nullish0 (map_option baseMediaDecodeTime tfdtBox)
     \<and> 0 \<le> moofOffset
     \<and> nullish0 (map_option baseMediaDecodeTime tfdtBox)
           + sum_list (map (rowDuration tfhdBox) (trafRows truns)) \<le> 9007199254740992
     \<and> list_all
          (\<lambda>t. moofOffset + \<bar>nullish0 (dataOffset t)\<bar>
                  + sum_list (map (rowSize tfhdBox) (trafRows truns)) \<le> 9007199254740992)
          truns)"


text \<open>
  The first concrete scenario of the specification: \<^verbatim>\<open>tfdt.baseMediaDecodeTime = 90000\<close>,
  one trun with data offset \<open>d\<close> and three samples of duration 3000 and sizes 4096,
  1024, 1024; \<^verbatim>\<open>firstSampleFlags = 0x02000000\<close> (bit 16 clear), default flags
  \<^verbatim>\<open>0x01010000\<close> (bit 16 set).
\<close>

definition scenarioTraf :: "int \<Rightarrow> IsoBaseMediaBox" where
  "scenarioTraf d =
    RegularBox ''traf'' 0
      [TfhdLeaf \<lparr> trackId = 1, defaultSampleDuration = None, defaultSampleSize = None,
                  defaultSampleFlags = Some 16842752 \<rparr>,
       TfdtLeaf \<lparr> baseMediaDecodeTime = 90000 \<rparr>,
       TrunLeaf \<lparr> dataOffset = Some d, firstSampleFlags = Some 33554432,
                  samples =
                    [\<lparr> sampleDuration = Some 3000, sampleSize = Some 4096, sampleFlags = None \<rparr>,
                     \<lparr> sampleDuration = Some 3000, sampleSize = Some 1024, sampleFlags = None \<rparr>,
                     \<lparr> sampleDuration = Some 3000, sampleSize = Some 1024, sampleFlags = None \<rparr>] \<rparr>]"

text \<open>
  The fallback chain for the sample flags in the words of the specification: the explicit
  per-sample value when present, else \<^verbatim>\<open>trun.firstSampleFlags\<close> for the first sample of
  the trun when present, else the \<^verbatim>\<open>tfhd\<close> default.  It is compared with the chain of
  \<open>sampleStep\<close> below.
\<close>

definition specSampleFlags :: "TfhdBox option \<Rightarrow> TrunBox \<Rightarrow> nat \<Rightarrow> TRunSample \<Rightarrow> int option" where
  "specSampleFlags tfhdBox trunBox i sample =
    (case sampleFlags sample of
       Some fl \<Rightarrow> Some fl
     | None \<Rightarrow>
         (if i = 0 \<and> firstSampleFlags trunBox \<noteq> None then firstSampleFlags trunBox
          else Option.bind tfhdBox defaultSampleFlags))"

text \<open>
  A traf whose only sample carries the explicit flags value 0 (a sync sample, bit 16
  clear) while the \<^verbatim>\<open>tfhd\<close> default is \<^verbatim>\<open>0x10000\<close> (bit 16 set).
\<close>

definition zeroFlagsTraf :: "int option \<Rightarrow> IsoBaseMediaBox" where
  "zeroFlagsTraf dflt =
    RegularBox ''traf'' 0
      [TfhdLeaf \<lparr> trackId = 1, defaultSampleDuration = None, defaultSampleSize = None,
                  defaultSampleFlags = dflt \<rparr>,
       TrunLeaf \<lparr> dataOffset = Some 0, firstSampleFlags = None,
                  samples =
                    [\<lparr> sampleDuration = Some 3000, sampleSize = Some 1024,
                       sampleFlags = Some 0 \<rparr>] \<rparr>]"

text \<open>
  A traf with a 64-bit base decode time of \<open>2^53\<close> and three samples of duration 1 and
  size 1.
\<close>

definition lateTraf :: IsoBaseMediaBox where
  "lateTraf =
    RegularBox ''traf'' 0
      [TfhdLeaf \<lparr> trackId = 1, defaultSampleDuration = Some 1, defaultSampleSize = Some 1,
                  defaultSampleFlags = Some 16842752 \<rparr>,
       TfdtLeaf \<lparr> baseMediaDecodeTime = 9007199254740992 \<rparr>,
       TrunLeaf \<lparr> dataOffset = Some 0, firstSampleFlags = None,
                  samples =
                    [\<lparr> sampleDuration = None, sampleSize = None, sampleFlags = None \<rparr>,
                     \<lparr> sampleDuration = None, sampleSize = None, sampleFlags = None \<rparr>,
                     \<lparr> sampleDuration = None, sampleSize = None, sampleFlags = None \<rparr>] \<rparr>]"

text \<open>A moof at offset 1000 whose only traf is the one of the scenario, with data offset 100.\<close>

definition scenarioMoof :: IsoBaseMediaBox where
  "scenarioMoof = RegularBox ''moof'' 1000 [OtherBox ''mfhd'', scenarioTraf 100]"

section \<open>ISO-BMFF muxer: serializing a track (serialize-track)\<close>

text \<open>
  The track handed to the muxer.  The types \<^verbatim>\<open>MakeTrackVideo\<close> and \<^verbatim>\<open>MakeTrackAudio\<close>
  are declared in \<^verbatim>\<open>../make-track-info\<close>, which is not among the sources; the fields are
  those \<^verbatim>\<open>serializeTrack\<close> reads, and \<open>timescale\<close>, which the track descriptor of the
  specification carries and \<^verbatim>\<open>serializeTrack\<close> never reads.
\<close>

datatype TrackDetails =
    VideoDetails int int
  | AudioDetails int int

record MakeTrack =
  trackNumber :: int
  codec :: string
  codecPrivate :: "nat list option"
  timescale :: int
  details :: TrackDetails

fun isVideo :: "TrackDetails \<Rightarrow> bool" where
  "isVideo (VideoDetails w h) = True"
| "isVideo (AudioDetails c r) = False"

fun trackWidth :: "TrackDetails \<Rightarrow> int" where
  "trackWidth (VideoDetails w h) = w"
| "trackWidth (AudioDetails c r) = 0"

fun trackHeight :: "TrackDetails \<Rightarrow> int" where
  "trackHeight (VideoDetails w h) = h"
| "trackHeight (AudioDetails c r) = 0"

record IsoBaseMediaTrackData =
  track :: MakeTrack
  durationInUnits :: int
  samplePositions :: "SamplePosition list"

definition ISO_BASE_TIMESCALE :: int where
  "ISO_BASE_TIMESCALE = 1000"

text \<open>
  The box builders (\<^verbatim>\<open>createTrak\<close>, \<^verbatim>\<open>createMdia\<close>, \<^verbatim>\<open>createMdhd\<close>, ...) are imported
  from files that are not among the sources.  Each is modelled as a free constructor that
  keeps the arguments \<^verbatim>\<open>serializeTrack\<close> passes to it, so the result of the model is the
  tree of builder calls.
\<close>

datatype TkhdFlag = TRACK_ENABLED | TRACK_IN_MOVIE

datatype Matrix = IDENTITY_MATRIX

datatype Tkhd =
    CreateTkhdForAudio "int option" "TkhdFlag list" "int option" int int int
  | CreateTkhdForVideo "int option" "int option" int "TkhdFlag list" int int Matrix int int
  | WrongTkhd

record Elst =
  segmentDuration :: int
  mediaTime :: int

record Mdhd =
  mdhd_creationTime :: "int option"
  mdhd_modificationTime :: "int option"
  mdhd_duration :: int
  mdhd_timescale :: int

datatype Btrt = CreateBtrt int int

datatype CodecSpecificData =
    Mp4aData int int Btrt int int
  | Avc1Data "nat list" Btrt string int int int int int "int \<times> int"

record Stbl =
  stbl_samplePositions :: "SamplePosition list"
  stbl_codecSpecificData :: CodecSpecificData

datatype Vmhd = CreateVmhd

record Minf =
  stblAtom :: Stbl
  vmhdAtom :: Vmhd

record Mdia =
  mdhd :: Mdhd
  hdlr :: string
  minf :: Minf

record Trak =
  tkhd :: Tkhd
  edts :: Elst
  mdia :: Mdia

definition serializeTrack :: "IsoBaseMediaTrackData \<Rightarrow> error + Trak" where
  "serializeTrack d =
    (let tk = track d in
     if codec tk \<noteq> ''h264'' \<and> codec tk \<noteq> ''aac''
     then Inl (Error ''Currently only H.264 and AAC is supported'')
     else case codecPrivate tk of
       None \<Rightarrow> Inl (Error ''Missing codecPrivate'')
     | Some private \<Rightarrow>
       Inr \<lparr> tkhd =
               (if codec tk = ''aac''
                then CreateTkhdForAudio None [TRACK_ENABLED, TRACK_IN_MOVIE] None
                       (durationInUnits d) (trackNumber tk) 1
                else if isVideo (details tk)
                then CreateTkhdForVideo None None (durationInUnits d)
                       [TRACK_ENABLED, TRACK_IN_MOVIE]
                       (trackHeight (details tk)) (trackWidth (details tk))
                       IDENTITY_MATRIX (trackNumber tk) 1
                else WrongTkhd),
             edts = \<lparr> segmentDuration = durationInUnits d, mediaTime = 0 \<rparr>,
             mdia =
               \<lparr> mdhd = \<lparr> mdhd_creationTime = None, mdhd_modificationTime = None,
                          mdhd_duration = durationInUnits d,
                          mdhd_timescale = ISO_BASE_TIMESCALE \<rparr>,
                 hdlr = (if isVideo (details tk) then ''video'' else ''audio''),
                 minf =
                   \<lparr> stblAtom =
                       \<lparr> stbl_samplePositions = samplePositions d,
                         stbl_codecSpecificData =
                           (case details tk of
                              AudioDetails numberOfChannels sampleRate \<Rightarrow>
                                Mp4aData 317370 319999 (CreateBtrt 317370 319999)
                                  numberOfChannels sampleRate
                            | VideoDetails width height \<Rightarrow>
                                Avc1Data private (CreateBtrt 437875 437875) [] 24 72 72
                                  height width (1, 1)) \<rparr>,
                     vmhdAtom = CreateVmhd \<rparr> \<rparr> \<rparr>)"


text \<open>The timescale the serialized \<^verbatim>\<open>mdhd\<close> of a track gets.\<close>

definition serializedMdhdTimescale :: "IsoBaseMediaTrackData \<Rightarrow> error + int" where
  "serializedMdhdTimescale d =
    (case serializeTrack d of
       Inl e \<Rightarrow> Inl e
     | Inr trak \<Rightarrow> Inr (mdhd_timescale (mdhd (mdia trak))))"

text \<open>An H.264 track with a 90 kHz timescale, and a VP8 track.\<close>

definition exampleVideoData :: IsoBaseMediaTrackData where
  "exampleVideoData =
    \<lparr> track = \<lparr> trackNumber = 1, codec = ''h264'', codecPrivate = Some [1, 100, 0, 31],
                timescale = 90000, details = VideoDetails 1920 1080 \<rparr>,
      durationInUnits = 5000, samplePositions = [] \<rparr>"

definition exampleVp8Data :: IsoBaseMediaTrackData where
  "exampleVp8Data =
    \<lparr> track = \<lparr> trackNumber = 1, codec = ''vp8'', codecPrivate = Some [],
                timescale = 1000, details = VideoDetails 640 360 \<rparr>,
      durationInUnits = 5000, samplePositions = [] \<rparr>"

section \<open>The conversion pipeline (convert-media)\<close>

record ConvertMediaState =
  decodedVideoFrames :: int
  decodedAudioFrames :: int
  encodedVideoFrames :: int
  encodedAudioFrames :: int

text \<open>
  The counters live in one mutable object, \<^verbatim>\<open>convertMediaState\<close>; the spread
  \<^verbatim>\<open>{...convertMediaState}\<close> allocates a new object.  The store keeps the two apart: a
  reference is either the pipeline's own object or the index of an allocated copy.
\<close>

datatype StateRef = ConvertMediaStateRef | SnapshotRef nat

record EncodedChunk =
  timestamp :: int
  chunkDuration :: "int option"

text \<open>
  The calls the pipeline makes on its collaborators (the muxer state returned by
  \<^verbatim>\<open>createMedia\<close>, the parser, the codecs, the user's hooks), none of which is among
  the sources.  The model records them in order.
\<close>

datatype Call =
    CreateMedia
  | ParseMedia
  | AddTrackVideo int int string
  | AddTrackAudio string int int
  | CreateVideoEncoder int int
  | CreateVideoDecoder
  | CreateAudioEncoder int int string
  | CreateAudioDecoder
  | AddWaitForFinishPromise
  | AddSample EncodedChunk int
  | UpdateDuration int
  | OnVideoFrame
  | EncodeFrame
  | FrameClose
  | OnMediaStateUpdate StateRef
  | WaitForFinish

record Pipeline =
  convertMediaState :: ConvertMediaState
  snapshots :: "ConvertMediaState list"
  trace :: "Call list"

text \<open>
  What the observer does to the object it is handed: the identity for an observer that
  only reads it.
\<close>

type_synonym Observer = "ConvertMediaState \<Rightarrow> ConvertMediaState"

fun deref :: "Pipeline \<Rightarrow> StateRef \<Rightarrow> ConvertMediaState" where
  "deref p ConvertMediaStateRef = convertMediaState p"
| "deref p (SnapshotRef n) = snapshots p ! n"

definition call :: "Call \<Rightarrow> Pipeline \<Rightarrow> Pipeline" where
  "call c p = p\<lparr> trace := trace p @ [c] \<rparr>"

text \<open>\<^verbatim>\<open>onMediaStateUpdate?.({...convertMediaState})\<close>\<close>

definition notifyCopy :: "Observer option \<Rightarrow> Pipeline \<Rightarrow> Pipeline" where
  "notifyCopy onMediaStateUpdate p =
    (case onMediaStateUpdate of
       None \<Rightarrow> p
     | Some f \<Rightarrow>
         p\<lparr> snapshots := snapshots p @ [f (convertMediaState p)],
            trace := trace p @ [OnMediaStateUpdate (SnapshotRef (length (snapshots p)))] \<rparr>)"

text \<open>\<^verbatim>\<open>onMediaStateUpdate?.(convertMediaState)\<close>\<close>

definition notifyShared :: "Observer option \<Rightarrow> Pipeline \<Rightarrow> Pipeline" where
  "notifyShared onMediaStateUpdate p =
    (case onMediaStateUpdate of
       None \<Rightarrow> p
     | Some f \<Rightarrow>
         p\<lparr> convertMediaState := f (convertMediaState p),
            trace := trace p @ [OnMediaStateUpdate ConvertMediaStateRef] \<rparr>)"

text \<open>\<^verbatim>\<open>Math.round(n / 1000)\<close> for an integer \<open>n\<close>: halves round up.\<close>

definition roundDiv1000 :: "int \<Rightarrow> int" where
  "roundDiv1000 n = (n + 500) div 1000"

text \<open>The \<^verbatim>\<open>onChunk\<close> callback of the video encoder of a track.\<close>

definition videoOnChunk :: "Observer option \<Rightarrow> int \<Rightarrow> EncodedChunk \<Rightarrow> Pipeline \<Rightarrow> Pipeline" where
  "videoOnChunk onMediaStateUpdate trackNo chunk p =
    (let p1 = call (AddSample chunk trackNo) p;
         newDuration = roundDiv1000 (timestamp chunk + nullish0 (chunkDuration chunk));
         p2 = call (UpdateDuration newDuration) p1;
         p3 = p2\<lparr> convertMediaState := (convertMediaState p2)
                 \<lparr> encodedVideoFrames := encodedVideoFrames (convertMediaState p2) + 1 \<rparr> \<rparr>
     in notifyCopy onMediaStateUpdate p3)"

text \<open>The \<^verbatim>\<open>onFrame\<close> callback of the video decoder of a track.\<close>

definition videoOnFrame :: "Observer option \<Rightarrow> bool \<Rightarrow> Pipeline \<Rightarrow> Pipeline" where
  "videoOnFrame onMediaStateUpdate hasOnVideoFrame p =
    (let p1 = (if hasOnVideoFrame then call OnVideoFrame p else p);
         p2 = call EncodeFrame p1;
         p3 = p2\<lparr> convertMediaState := (convertMediaState p2)
                 \<lparr> decodedVideoFrames := decodedVideoFrames (convertMediaState p2) + 1 \<rparr> \<rparr>;
         p4 = notifyCopy onMediaStateUpdate p3
     in call FrameClose p4)"

text \<open>The \<^verbatim>\<open>onChunk\<close> callback of the audio encoder of a track.\<close>

definition audioOnChunk :: "Observer option \<Rightarrow> int \<Rightarrow> EncodedChunk \<Rightarrow> Pipeline \<Rightarrow> Pipeline" where
  "audioOnChunk onMediaStateUpdate trackNo chunk p =
    (let p1 = call (AddSample chunk trackNo) p;
         p2 = p1\<lparr> convertMediaState := (convertMediaState p1)
                 \<lparr> encodedAudioFrames := encodedAudioFrames (convertMediaState p1) + 1 \<rparr> \<rparr>
     in notifyCopy onMediaStateUpdate p2)"

text \<open>The \<^verbatim>\<open>onFrame\<close> callback of the audio decoder of a track.\<close>

definition audioOnFrame :: "Observer option \<Rightarrow> Pipeline \<Rightarrow> Pipeline" where
  "audioOnFrame onMediaStateUpdate p =
    (let p1 = call EncodeFrame p;
         p2 = p1\<lparr> convertMediaState := (convertMediaState p1)
                 \<lparr> decodedAudioFrames := decodedAudioFrames (convertMediaState p1) + 1 \<rparr> \<rparr>;
         p3 = notifyShared onMediaStateUpdate p2
     in call FrameClose p3)"

text \<open>
  The input tracks, as far as the callbacks read them, and what the codec factories
  answer (\<open>True\<close>: the factory returned \<^verbatim>\<open>null\<close>).
\<close>

record VideoTrack =
  codedWidth :: int
  codedHeight :: int
  displayAspectWidth :: int
  displayAspectHeight :: int

record AudioTrack =
  at_numberOfChannels :: int
  at_sampleRate :: int

text \<open>
  \<^verbatim>\<open>onVideoTrack\<close> and \<^verbatim>\<open>onAudioTrack\<close>.  The result says whether a sample handler is
  returned (\<open>False\<close>: \<^verbatim>\<open>null\<close>).
\<close>

definition onVideoTrack ::
  "Observer option \<Rightarrow> string \<Rightarrow> VideoTrack \<Rightarrow> bool \<Rightarrow> bool \<Rightarrow> Pipeline \<Rightarrow> bool \<times> Pipeline" where
  "onVideoTrack onMediaStateUpdate videoCodec tk encoderIsNull decoderIsNull p =
    (let p1 = call (AddTrackVideo (codedWidth tk) (codedHeight tk) videoCodec) p;
         p2 = call (CreateVideoEncoder (displayAspectWidth tk) (displayAspectHeight tk)) p1
     in if encoderIsNull then (False, notifyCopy onMediaStateUpdate p2)
        else
          (let p3 = call CreateVideoDecoder p2
           in if decoderIsNull then (False, notifyCopy onMediaStateUpdate p3)
              else (True, call AddWaitForFinishPromise p3)))"

definition onAudioTrack ::
  "Observer option \<Rightarrow> string \<Rightarrow> AudioTrack \<Rightarrow> bool \<Rightarrow> bool \<Rightarrow> Pipeline \<Rightarrow> bool \<times> Pipeline" where
  "onAudioTrack onMediaStateUpdate audioCodec tk encoderIsNull decoderIsNull p =
    (let p1 = call (AddTrackAudio audioCodec (at_numberOfChannels tk) (at_sampleRate tk)) p;
         p2 = call (CreateAudioEncoder (at_sampleRate tk) (at_numberOfChannels tk) audioCodec) p1
     in if encoderIsNull then (False, notifyCopy onMediaStateUpdate p2)
        else
          (let p3 = call CreateAudioDecoder p2
           in if decoderIsNull then (False, notifyShared onMediaStateUpdate p3)
              else (True, call AddWaitForFinishPromise p3)))"

text \<open>
  What the collaborators do while \<^verbatim>\<open>parseMedia\<close> runs: they discover tracks and call the
  callbacks registered for them.  The order is theirs; the model takes it as a list.
\<close>

datatype Event =
    VideoTrackFound VideoTrack bool bool
  | AudioTrackFound AudioTrack bool bool
  | VideoChunkEncoded int EncodedChunk
  | VideoFrameDecoded
  | AudioChunkEncoded int EncodedChunk
  | AudioFrameDecoded

record ConvertMediaOptions =
  opt_to :: string
  opt_videoCodec :: string
  opt_audioCodec :: string
  opt_onMediaStateUpdate :: "Observer option"
  opt_hasOnVideoFrame :: bool

fun handleEvent :: "ConvertMediaOptions \<Rightarrow> Event \<Rightarrow> Pipeline \<Rightarrow> Pipeline" where
  "handleEvent opts (VideoTrackFound tk encoderIsNull decoderIsNull) p =
     snd (onVideoTrack (opt_onMediaStateUpdate opts) (opt_videoCodec opts) tk
            encoderIsNull decoderIsNull p)"
| "handleEvent opts (AudioTrackFound tk encoderIsNull decoderIsNull) p =
     snd (onAudioTrack (opt_onMediaStateUpdate opts) (opt_audioCodec opts) tk
            encoderIsNull decoderIsNull p)"
| "handleEvent opts (VideoChunkEncoded trackNo chunk) p =
     videoOnChunk (opt_onMediaStateUpdate opts) trackNo chunk p"
| "handleEvent opts VideoFrameDecoded p =
     videoOnFrame (opt_onMediaStateUpdate opts) (opt_hasOnVideoFrame opts) p"
| "handleEvent opts (AudioChunkEncoded trackNo chunk) p =
     audioOnChunk (opt_onMediaStateUpdate opts) trackNo chunk p"
| "handleEvent opts AudioFrameDecoded p =
     audioOnFrame (opt_onMediaStateUpdate opts) p"

fun runEvents :: "ConvertMediaOptions \<Rightarrow> Event list \<Rightarrow> Pipeline \<Rightarrow> Pipeline" where
  "runEvents opts [] p = p"
| "runEvents opts (e # es) p = runEvents opts es (handleEvent opts e p)"

text \<open>
  The outcomes of the awaited collaborators: \<^verbatim>\<open>createMedia\<close>, \<^verbatim>\<open>parseMedia\<close> and
  \<^verbatim>\<open>state.waitForFinish\<close> either settle or reject with an error.
\<close>

record Environment =
  createMediaError :: "error option"
  events :: "Event list"
  parseMediaError :: "error option"
  waitForFinishError :: "error option"

datatype ConvertMediaResult = SaveHandle

definition initialPipeline :: Pipeline where
  "initialPipeline =
    \<lparr> convertMediaState =
        \<lparr> decodedVideoFrames = 0, decodedAudioFrames = 0,
          encodedVideoFrames = 0, encodedAudioFrames = 0 \<rparr>,
      snapshots = [], trace = [] \<rparr>"

text \<open>
  \<^verbatim>\<open>convertMedia\<close>: how the returned promise settles (\<open>Inl\<close>: rejected), and the
  pipeline with the trace of every call made.  The \<^verbatim>\<open>onError\<close> callbacks of the codecs
  (\<^verbatim>\<open>abortConversion\<close>) are not among the events.
\<close>

definition convertMedia ::
  "ConvertMediaOptions \<Rightarrow> Environment \<Rightarrow> (error + ConvertMediaResult) \<times> Pipeline" where
  \<open>convertMedia opts env =
    (if opt_to opts \<noteq> ''webm''
     then (Inl (TypeError ''Only `to: "webm"` is supported currently''), initialPipeline)
     else if opt_audioCodec opts \<noteq> ''opus''
     then (Inl (TypeError ''Only `audioCodec: "opus"` is supported currently''), initialPipeline)
     else if opt_videoCodec opts \<noteq> ''vp8''
     then (Inl (TypeError ''Only `videoCodec: "vp8"` is supported currently''), initialPipeline)
     else
       (let p0 = call CreateMedia initialPipeline
        in case createMediaError env of
             Some e \<Rightarrow> (Inl e, p0)
           | None \<Rightarrow>
               (let p1 = runEvents opts (events env) (call ParseMedia p0)
                in case parseMediaError env of
                     Some e \<Rightarrow> (Inl e, p1)
                   | None \<Rightarrow>
                       (let p2 = call WaitForFinish p1
                        in case waitForFinishError env of
                             Some e \<Rightarrow> (Inl e, p2)
                           | None \<Rightarrow> (Inr SaveHandle, p2)))))\<close>


text \<open>Concrete inputs: a request for MP4, a chunk of 20 ms at one second, two observers.\<close>

definition mp4Options :: ConvertMediaOptions where
  "mp4Options =
    \<lparr> opt_to = ''mp4'', opt_videoCodec = ''h264'', opt_audioCodec = ''aac'',
      opt_onMediaStateUpdate = Some id, opt_hasOnVideoFrame = False \<rparr>"

definition quietEnvironment :: "Event list \<Rightarrow> Environment" where
  "quietEnvironment es =
    \<lparr> createMediaError = None, events = es, parseMediaError = None,
      waitForFinishError = None \<rparr>"

definition exampleChunk :: EncodedChunk where
  "exampleChunk = \<lparr> timestamp = 1000000, chunkDuration = Some 20000 \<rparr>"

definition resetDecodedAudio :: Observer where
  "resetDecodedAudio s = s\<lparr> decodedAudioFrames := 0 \<rparr>"

section \<open>Matroska: parsing one element (parse-segment / expect-segment)\<close>

record PartialVideoSample =
  vs_trackId :: int
  vs_timestamp :: int
  vs_data :: "nat list"

datatype FrameType = Key | Delta

record VideoSample = PartialVideoSample +
  vs_type :: FrameType

datatype MatroskaSegment =
    MainSegment "MatroskaSegment list"
  | ClusterSegment "MatroskaSegment list"
  | BlockGroupSegment "MatroskaSegment list"
  | SimpleBlockOrBlockSegment "PartialVideoSample option"
  | ReferenceBlockSegment
  | TimestampSegment int
  | EbmlSegment string int
  | LeafSegment string

text \<open>\<^verbatim>\<open>c.type === 'simple-block-or-block-segment'\<close> and \<^verbatim>\<open>c.type === 'reference-block-segment'\<close>\<close>

fun isSimpleBlockOrBlock :: "MatroskaSegment \<Rightarrow> bool" where
  "isSimpleBlockOrBlock (SimpleBlockOrBlockSegment v) = True"
| "isSimpleBlockOrBlock s = False"

fun isReferenceBlock :: "MatroskaSegment \<Rightarrow> bool" where
  "isReferenceBlock ReferenceBlockSegment = True"
| "isReferenceBlock s = False"

fun videoSample :: "MatroskaSegment \<Rightarrow> PartialVideoSample option" where
  "videoSample (SimpleBlockOrBlockSegment v) = v"
| "videoSample s = None"

text \<open>
  Modelled from the spec: the buffer iterator is not among the sources.  It is a cursor
  over the buffered bytes; section 4.A gives it a byte slice and an offset, with
  \<^verbatim>\<open>offset()\<close>, \<^verbatim>\<open>remaining()\<close> and \<^verbatim>\<open>rewind(n)\<close>, here \<^verbatim>\<open>counter.getOffset()\<close>,
  \<^verbatim>\<open>bytesRemaining()\<close>, \<^verbatim>\<open>byteLength()\<close> and \<^verbatim>\<open>counter.decrement(n)\<close>.
\<close>

record BufferIterator =
  buffered :: "nat list"
  counter :: int

definition getOffset :: "BufferIterator \<Rightarrow> int" where
  "getOffset it = counter it"

definition byteLength :: "BufferIterator \<Rightarrow> int" where
  "byteLength it = int (length (buffered it))"

definition bytesRemaining :: "BufferIterator \<Rightarrow> int" where
  "bytesRemaining it = byteLength it - getOffset it"

definition decrement :: "int \<Rightarrow> BufferIterator \<Rightarrow> BufferIterator" where
  "decrement n it = it\<lparr> counter := counter it - n \<rparr>"

text \<open>
  The parser state.  \<^verbatim>\<open>parserContext.parserState\<close> is not among the sources; the model
  keeps the timescale that \<^verbatim>\<open>setTimescale\<close> stores and \<^verbatim>\<open>getTimescale\<close> reads, and
  records the calls of the other methods in order.
\<close>

datatype Track = Track int string

datatype ParserCall =
    OnTrackEntrySegment MatroskaSegment
  | RegisterTrack Track
  | SetTimestampOffset int int
  | OnVideoSample int VideoSample
  | SetTimescale int

record ParserState =
  ps_timescale :: int
  ps_calls :: "ParserCall list"

definition parserCall :: "ParserCall \<Rightarrow> ParserState \<Rightarrow> ParserState" where
  "parserCall c st = st\<lparr> ps_calls := ps_calls st @ [c] \<rparr>"

definition setTimescale :: "int \<Rightarrow> ParserState \<Rightarrow> ParserState" where
  "setTimescale v st = parserCall (SetTimescale v) (st\<lparr> ps_timescale := v \<rparr>)"

text \<open>The video samples handed to \<^verbatim>\<open>onVideoSample\<close>, in order.\<close>

fun videoSamplesOf :: "ParserCall list \<Rightarrow> (int \<times> VideoSample) list" where
  "videoSamplesOf [] = []"
| "videoSamplesOf (OnVideoSample t v # cs) = (t, v) # videoSamplesOf cs"
| "videoSamplesOf (c # cs) = videoSamplesOf cs"

text \<open>
  What \<^verbatim>\<open>expectSegment\<close> and \<^verbatim>\<open>expectChildren\<close> return.  A continuation is either the
  closure that calls \<^verbatim>\<open>expectSegment\<close> again, or the one \<^verbatim>\<open>expectChildren\<close> returned,
  which resumes a container with the length that is left and the children parsed so far.
\<close>

datatype Continuation =
    ReplayExpectSegment
  | ContinueChildren int "MatroskaSegment list" bool

datatype ParseResult =
    ParseDone "MatroskaSegment list"
  | ParseIncomplete "MatroskaSegment list" Continuation

fun isIncomplete :: "ParseResult \<Rightarrow> bool" where
  "isIncomplete (ParseIncomplete segs k) = True"
| "isIncomplete (ParseDone segs) = False"

type_synonym LeafParser =
  "BufferIterator \<Rightarrow> int \<Rightarrow> error + (MatroskaSegment \<times> BufferIterator)"

type_synonym ContextParser =
  "ParserState \<Rightarrow> BufferIterator \<Rightarrow> int
    \<Rightarrow> error + (MatroskaSegment \<times> BufferIterator \<times> ParserState)"

text \<open>
  The functions \<^verbatim>\<open>parseSegment\<close> and \<^verbatim>\<open>expectSegment\<close> import from files that are not
  among the sources are parameters: the two reads of the iterator, \<^verbatim>\<open>expectChildren\<close>,
  the element parsers (by the name of the function; those that take the parser context
  may change the parser state), \<^verbatim>\<open>parseEbml\<close>, \<^verbatim>\<open>getTrack\<close> and \<^verbatim>\<open>registerTrack\<close>.
  \<^verbatim>\<open>expectChildren\<close> gets \<open>True\<close> for the wrapper of a main segment and \<open>False\<close> for
  that of a cluster.
\<close>

record MatroskaEnv =
  getMatroskaSegmentId :: "BufferIterator \<Rightarrow> string option \<times> BufferIterator"
  getVint :: "BufferIterator \<Rightarrow> int option \<times> BufferIterator"
  expectChildren ::
    "ParserState \<Rightarrow> BufferIterator \<Rightarrow> int \<Rightarrow> bool
      \<Rightarrow> error + (ParseResult \<times> BufferIterator \<times> ParserState)"
  leafParser :: "string \<Rightarrow> LeafParser"
  contextParser :: "string \<Rightarrow> ContextParser"
  parseSimpleBlockOrBlockSegment :: "string \<Rightarrow> ContextParser"
  parseBlockGroupSegment ::
    "ParserState \<Rightarrow> BufferIterator \<Rightarrow> int
      \<Rightarrow> error + (MatroskaSegment list \<times> BufferIterator \<times> ParserState)"
  parseTimestampSegment :: "BufferIterator \<Rightarrow> int \<Rightarrow> error + (int \<times> BufferIterator)"
  parseEbml :: "BufferIterator \<Rightarrow> error + ((string \<times> int) \<times> BufferIterator)"
  getTrack :: "MatroskaSegment \<Rightarrow> int \<Rightarrow> Track option"
  registerTrack :: "ParserState \<Rightarrow> Track \<Rightarrow> error + ParserState"

text \<open>
  Modelled from the spec: the table \<^verbatim>\<open>matroskaElements\<close> is not among the
  sources; the ids of the entries \<^verbatim>\<open>parseSegment\<close> uses are those of section 4.C.
\<close>

definition matroskaElements_TrackEntry :: string where
  "matroskaElements_TrackEntry = ''0xae''"

definition matroskaElements_Timestamp :: string where
  "matroskaElements_Timestamp = ''0xe7''"

definition matroskaElements_SimpleBlock :: string where
  "matroskaElements_SimpleBlock = ''0xa3''"

definition matroskaElements_Block :: string where
  "matroskaElements_Block = ''0xa1''"

definition matroskaElements_ReferenceBlock :: string where
  "matroskaElements_ReferenceBlock = ''0xfb''"

definition matroskaElements_BlockAdditions :: string where
  "matroskaElements_BlockAdditions = ''0x75a1''"

text \<open>Running an element parser that does not take the parser context.\<close>

definition runLeaf ::
  "LeafParser \<Rightarrow> ParserState \<Rightarrow> BufferIterator \<Rightarrow> int
    \<Rightarrow> error + (MatroskaSegment \<times> BufferIterator \<times> ParserState)" where
  "runLeaf parser st it len =
    (case parser it len of Inl e \<Rightarrow> Inl e | Inr (seg, it') \<Rightarrow> Inr (seg, it', st))"

text \<open>
  The branch of \<^verbatim>\<open>parseSegment\<close> for \<^verbatim>\<open>segmentId === '0xa0'\<close> after the block group
  has been parsed: the keyframe of a Block is inferred from the absence of a
  ReferenceBlock.
\<close>

definition completeBlockGroup ::
  "MatroskaSegment list \<Rightarrow> ParserState \<Rightarrow> error + ParserState" where
  "completeBlockGroup groupChildren st =
    (case find isSimpleBlockOrBlock groupChildren of
       None \<Rightarrow> Inl (Error ''Expected block segment'')
     | Some block \<Rightarrow>
         (let hasReferenceBlock = find isReferenceBlock groupChildren;
              partialVideoSample = videoSample block
          in case partialVideoSample of
               None \<Rightarrow> Inr st
             | Some partial \<Rightarrow>
                 (let completeFrame =
                        PartialVideoSample.extend partial
                          (VideoSample.fields
                             (if hasReferenceBlock \<noteq> None then Delta else Key))
                  in Inr (parserCall (OnVideoSample (vs_trackId partial) completeFrame) st))))"


definition parseSegment ::
  "MatroskaEnv \<Rightarrow> string \<Rightarrow> BufferIterator \<Rightarrow> int \<Rightarrow> ParserState \<Rightarrow> int
    \<Rightarrow> error + (MatroskaSegment \<times> BufferIterator \<times> ParserState)" where
  "parseSegment env segmentId iterator len st headerReadSoFar =
    (if len = 0
       then Inl (Error (''Expected length of '' @ segmentId @ '' to be greater than 0''))
     else if segmentId = ''0x1654ae6b''
       then contextParser env ''parseTracksSegment'' st iterator len
     else if segmentId = matroskaElements_TrackEntry
       then (case contextParser env ''parseTrackEntry'' st iterator len of
               Inl e \<Rightarrow> Inl e
             | Inr (trackEntry, it1, st1) \<Rightarrow>
                 (let st2 = parserCall (OnTrackEntrySegment trackEntry) st1
                  in case getTrack env trackEntry (ps_timescale st2) of
                       None \<Rightarrow> Inr (trackEntry, it1, st2)
                     | Some tk \<Rightarrow>
                         (case registerTrack env st2 tk of
                            Inl e \<Rightarrow> Inl e
                          | Inr st3 \<Rightarrow> Inr (trackEntry, it1, st3))))
     else if segmentId = ''0xd7'' then runLeaf (leafParser env ''parseTrackNumber'') st iterator len
     else if segmentId = ''0x73c5'' then runLeaf (leafParser env ''parseTrackUID'') st iterator len
     else if segmentId = ''0x9c'' then runLeaf (leafParser env ''parseFlagLacing'') st iterator len
     else if segmentId = ''0x22b59c''
       then runLeaf (leafParser env ''parseLanguageSegment'') st iterator len
     else if segmentId = ''0x55ee''
       then runLeaf (leafParser env ''parseMaxBlockAdditionId'') st iterator len
     else if segmentId = ''0x55b0''
       then runLeaf (leafParser env ''parseColorSegment'') st iterator len
     else if segmentId = ''0x23e383''
       then runLeaf (leafParser env ''parseDefaultDurationSegment'') st iterator len
     else if segmentId = ''0xe0'' then contextParser env ''parseVideoSegment'' st iterator len
     else if segmentId = ''0xe1'' then contextParser env ''parseAudioSegment'' st iterator len
     else if segmentId = ''0x63a2''
       then runLeaf (leafParser env ''parseCodecPrivateSegment'') st iterator len
     else if segmentId = ''0x88''
       then runLeaf (leafParser env ''parseDefaultFlagSegment'') st iterator len
     else if segmentId = ''0x1254c367''
       then contextParser env ''parseTagsSegment'' st iterator len
     else if segmentId = ''0x7373'' then runLeaf (leafParser env ''parseTagSegment'') st iterator len
     else if segmentId = matroskaElements_Timestamp
       then (let offset = getOffset iterator
             in case parseTimestampSegment env iterator len of
                  Inl e \<Rightarrow> Inl e
                | Inr (ts, it1) \<Rightarrow>
                    Inr (TimestampSegment ts, it1, parserCall (SetTimestampOffset offset ts) st))
     else if segmentId = matroskaElements_SimpleBlock \<or> segmentId = matroskaElements_Block
       then parseSimpleBlockOrBlockSegment env segmentId st iterator len
     else if segmentId = matroskaElements_ReferenceBlock
       then runLeaf (leafParser env ''parseReferenceBlockSegment'') st iterator len
     else if segmentId = matroskaElements_BlockAdditions
       then runLeaf (leafParser env ''parseBlockAdditionsSegment'') st iterator len
     else if segmentId = ''0xa0''
       then (case parseBlockGroupSegment env st iterator len of
               Inl e \<Rightarrow> Inl e
             | Inr (groupChildren, it1, st1) \<Rightarrow>
                 (case completeBlockGroup groupChildren st1 of
                    Inl e \<Rightarrow> Inl e
                  | Inr st2 \<Rightarrow> Inr (BlockGroupSegment groupChildren, it1, st2)))
     else if segmentId = ''0xa1''
       then runLeaf (leafParser env ''parseBlockElementSegment'') st iterator len
     else
       (case parseEbml env (decrement headerReadSoFar iterator) of
          Inl e \<Rightarrow> Inl e
        | Inr ((ebmlType, ebmlValue), it1) \<Rightarrow>
            Inr (EbmlSegment ebmlType ebmlValue, it1,
                 (if ebmlType = ''TimestampScale'' then setTimescale ebmlValue st else st))))"

text \<open>The three places where \<^verbatim>\<open>expectSegment\<close> rewinds and asks to be called again.\<close>

definition rewindIncomplete ::
  "int \<Rightarrow> BufferIterator \<Rightarrow> ParserState
    \<Rightarrow> error + (ParseResult \<times> BufferIterator \<times> ParserState)" where
  "rewindIncomplete offset it st =
    Inr (ParseIncomplete [] ReplayExpectSegment, decrement (getOffset it - offset) it, st)"

definition expectSegment ::
  "MatroskaEnv \<Rightarrow> ParserState \<Rightarrow> BufferIterator
    \<Rightarrow> error + (ParseResult \<times> BufferIterator \<times> ParserState)" where
  "expectSegment env st iterator =
    (let offset = getOffset iterator in
     if bytesRemaining iterator = 0
       then Inr (ParseIncomplete [] ReplayExpectSegment, iterator, st)
     else
       (case getMatroskaSegmentId env iterator of
          (None, it1) \<Rightarrow> rewindIncomplete offset it1 st
        | (Some segmentId, it1) \<Rightarrow>
            (case getVint env it1 of
               (None, it2) \<Rightarrow> rewindIncomplete offset it2 st
             | (Some len, it2) \<Rightarrow>
                 (let bytesRemainingNow = byteLength it2 - getOffset it2 in
                  if segmentId = ''0x18538067'' \<or> segmentId = ''0x1f43b675''
                    then (case expectChildren env st it2 len (segmentId = ''0x18538067'') of
                            Inl e \<Rightarrow> Inl e
                          | Inr (ParseIncomplete segs k, it3, st3) \<Rightarrow>
                              Inr (ParseIncomplete segs k, it3, st3)
                          | Inr (ParseDone segs, it3, st3) \<Rightarrow>
                              Inr (ParseDone segs, it3, st3))
                  else if bytesRemainingNow < len
                    then rewindIncomplete offset it2 st
                  else
                    (case parseSegment env segmentId it2 len st (getOffset it2 - offset) of
                       Inl e \<Rightarrow> Inl e
                     | Inr (segment, it3, st3) \<Rightarrow> Inr (ParseDone [segment], it3, st3))))))"

text \<open>
  The case the restored offset does not cover: the element read is a Segment or a
  Cluster.
\<close>

definition readsContainer :: "MatroskaEnv \<Rightarrow> BufferIterator \<Rightarrow> bool" where
  "readsContainer env iterator =
    (bytesRemaining iterator \<noteq> 0 \<and>
     (case getMatroskaSegmentId env iterator of
        (None, it1) \<Rightarrow> False
      | (Some segmentId, it1) \<Rightarrow>
          (case getVint env it1 of
             (None, it2) \<Rightarrow> False
           | (Some len, it2) \<Rightarrow> segmentId = ''0x18538067'' \<or> segmentId = ''0x1f43b675'')))"


subsection \<open>An instance of the parameters for concrete inputs\<close>

text \<open>
  Modelled from the spec: the reads of the buffer iterator are not among the
  sources.  Section 4.A: the position of the first set bit of the leading byte gives the
  width of a variable-width integer; \<^verbatim>\<open>read_vint\<close> masks the marker off and concatenates
  the remaining bytes, \<^verbatim>\<open>read_matroska_id\<close> keeps the marker.  A read that finds fewer
  bytes than the width has consumed the leading byte and yields \<^verbatim>\<open>null\<close>.
\<close>

definition vintWidth :: "nat \<Rightarrow> nat" where
  "vintWidth b =
    (if 128 \<le> b then 1 else if 64 \<le> b then 2 else if 32 \<le> b then 3 else if 16 \<le> b then 4
     else if 8 \<le> b then 5 else if 4 \<le> b then 6 else if 2 \<le> b then 7 else if 1 \<le> b then 8
     else 0)"

definition hexDigit :: "nat \<Rightarrow> char" where
  "hexDigit n = (''0123456789abcdef'') ! (n mod 16)"

definition hexByte :: "nat \<Rightarrow> string" where
  "hexByte b = [hexDigit (b div 16), hexDigit b]"

fun bigEndian :: "nat \<Rightarrow> nat list \<Rightarrow> nat" where
  "bigEndian acc [] = acc"
| "bigEndian acc (b # bs) = bigEndian (acc * 256 + b) bs"

definition unread :: "BufferIterator \<Rightarrow> nat list" where
  "unread it = drop (nat (counter it)) (buffered it)"

definition skip :: "int \<Rightarrow> BufferIterator \<Rightarrow> BufferIterator" where
  "skip n it = it\<lparr> counter := counter it + n \<rparr>"

definition readMatroskaId :: "BufferIterator \<Rightarrow> string option \<times> BufferIterator" where
  "readMatroskaId it =
    (case unread it of
       [] \<Rightarrow> (None, it)
     | b # bs \<Rightarrow>
         (let w = vintWidth b in
          if w = 0 \<or> length (b # bs) < w then (None, skip 1 it)
          else (Some (''0x'' @ concat (map hexByte (take w (b # bs)))), skip (int w) it)))"

definition readVint :: "BufferIterator \<Rightarrow> int option \<times> BufferIterator" where
  "readVint it =
    (case unread it of
       [] \<Rightarrow> (None, it)
     | b # bs \<Rightarrow>
         (let w = vintWidth b in
          if w = 0 \<or> length (b # bs) < w then (None, skip 1 it)
          else (Some (int (bigEndian (b - 2 ^ (8 - w)) (take (w - 1) bs))), skip (int w) it)))"

text \<open>
  Modelled from the spec: \<^verbatim>\<open>expectChildren\<close> is not among the sources.
  Section 4.C: the children of a container are read one after the other by
  \<^verbatim>\<open>expect_segment\<close> until the length of the container is used up; when a child is
  incomplete the container is incomplete, and the iterator stays where the child left it.
  The bound on the number of children stands for the loop running out of bytes.
\<close>

fun childrenLoop ::
  "(ParserState \<Rightarrow> BufferIterator \<Rightarrow> error + (ParseResult \<times> BufferIterator \<times> ParserState))
    \<Rightarrow> nat \<Rightarrow> int \<Rightarrow> bool \<Rightarrow> MatroskaSegment list \<Rightarrow> ParserState \<Rightarrow> BufferIterator
    \<Rightarrow> error + (ParseResult \<times> BufferIterator \<times> ParserState)" where
  "childrenLoop child 0 endOffset isMain acc st it = Inl (Error ''too many children'')"
| "childrenLoop child (Suc n) endOffset isMain acc st it =
    (if \<not> getOffset it < endOffset
     then Inr (ParseDone [if isMain then MainSegment acc else ClusterSegment acc], it, st)
     else
       (case child st it of
          Inl e \<Rightarrow> Inl e
        | Inr (ParseIncomplete segs k, it', st') \<Rightarrow>
            Inr (ParseIncomplete [] (ContinueChildren (endOffset - getOffset it') acc isMain),
                 it', st')
        | Inr (ParseDone segs, it', st') \<Rightarrow>
            childrenLoop child n endOffset isMain (acc @ segs) st' it'))"

text \<open>
  The element parsers of the instance consume the payload and keep only the name of the
  parser; a block group has the given children.
\<close>

definition exampleEnv ::
  "(ParserState \<Rightarrow> BufferIterator \<Rightarrow> error + (ParseResult \<times> BufferIterator \<times> ParserState))
    \<Rightarrow> MatroskaSegment list \<Rightarrow> MatroskaEnv" where
  "exampleEnv child groupChildren =
    \<lparr> getMatroskaSegmentId = readMatroskaId,
      getVint = readVint,
      expectChildren =
        (\<lambda>st it len isMain.
           childrenLoop child (Suc (length (buffered it))) (getOffset it + len) isMain [] st it),
      leafParser = (\<lambda>name it len. Inr (LeafSegment name, skip len it)),
      contextParser = (\<lambda>name st it len. Inr (LeafSegment name, skip len it, st)),
      parseSimpleBlockOrBlockSegment =
        (\<lambda>segmentId st it len. Inr (SimpleBlockOrBlockSegment None, skip len it, st)),
      parseBlockGroupSegment = (\<lambda>st it len. Inr (groupChildren, skip len it, st)),
      parseTimestampSegment = (\<lambda>it len. Inr (0, skip len it)),
      parseEbml = (\<lambda>it. Inr ((''Void'', 0), it)),
      getTrack = (\<lambda>trackEntry timescale. None),
      registerTrack = (\<lambda>st tk. Inr st) \<rparr>"

primrec exampleExpectSegment ::
  "nat \<Rightarrow> ParserState \<Rightarrow> BufferIterator
    \<Rightarrow> error + (ParseResult \<times> BufferIterator \<times> ParserState)" where
  "exampleExpectSegment 0 = (\<lambda>st it. Inl (Error ''nested too deep''))"
| "exampleExpectSegment (Suc d) = expectSegment (exampleEnv (exampleExpectSegment d) [])"

definition emptyParserState :: ParserState where
  "emptyParserState = \<lparr> ps_timescale = 1000000, ps_calls = [] \<rparr>"

text \<open>
  A Segment header (id \<^verbatim>\<open>0x18538067\<close>, size 16 on eight bytes) followed by the first
  byte of a Cluster id; and the first three bytes of a SimpleBlock (id \<^verbatim>\<open>0xa3\<close>, size
  4) of which only one payload byte is buffered.
\<close>

definition segmentHeaderBytes :: "nat list" where
  "segmentHeaderBytes = [24, 83, 128, 103, 1, 0, 0, 0, 0, 0, 0, 16, 31]"

definition shortBlockBytes :: "nat list" where
  "shortBlockBytes = [163, 132, 129]"

definition exampleSample :: PartialVideoSample where
  "exampleSample = \<lparr> vs_trackId = 1, vs_timestamp = 1017, vs_data = [] \<rparr>"


section \<open>Sums of numbers\<close>

text \<open>
  Up to \<open>2^53\<close> in magnitude the sum of two numbers is exact; \<open>2^53 + 1\<close> is not a double
  and rounds to \<open>2^53\<close>, the even neighbour.
\<close>

lemma ulpShift_small: "n < 9007199254740992 \<Longrightarrow> ulpShift n = 0"
  by (subst ulpShift.simps) simp

lemma ulpShift_next:
  "9007199254740992 \<le> n \<Longrightarrow> n < 18014398509481984 \<Longrightarrow> ulpShift n = Suc 0"
proof -
  assume a: "9007199254740992 \<le> n" and b: "n < 18014398509481984"
  then have "n div 2 < 9007199254740992" by simp
  then have "ulpShift (n div 2) = 0" by (rule ulpShift_small)
  then show ?thesis using a by (subst ulpShift.simps) simp
qed

lemma roundNat_exact: "n \<le> 9007199254740992 \<Longrightarrow> roundNat n = n"
proof (cases "n < 9007199254740992")
  case True
  then show ?thesis by (simp add: roundNat_def ulpShift_small)
next
  case False
  assume "n \<le> 9007199254740992"
  with False have n: "n = 9007199254740992" by simp
  have "ulpShift n = Suc 0" unfolding n by (rule ulpShift_next) simp_all
  then show ?thesis by (simp add: roundNat_def n)
qed

lemma roundToDouble_exact: "\<bar>x\<bar> \<le> 9007199254740992 \<Longrightarrow> roundToDouble x = x"
  by (simp add: roundToDouble_def roundNat_exact)

lemma jsAdd_exact: "\<bar>a + b\<bar> \<le> 9007199254740992 \<Longrightarrow> jsAdd a b = a + b"
  by (simp add: jsAdd_def roundToDouble_exact)

lemma jsAdd_tie: "jsAdd 1 9007199254740992 = 9007199254740992"
proof -
  have "ulpShift 9007199254740993 = Suc 0" by (rule ulpShift_next) simp_all
  then show ?thesis by (simp add: jsAdd_def roundToDouble_def roundNat_def)
qed

lemma jsAdd_even: "jsAdd 2 9007199254740992 = 9007199254740994"
proof -
  have "ulpShift 9007199254740994 = Suc 0" by (rule ulpShift_next) simp_all
  then show ?thesis by (simp add: jsAdd_def roundToDouble_def roundNat_def)
qed

section \<open>Sample positions of a fragment\<close>

lemma sampleStep_fields:
  assumes "sampleStep tfhdBox tfdtBox m t i s off time = Inr sp"
  shows "sp_offset sp = jsAdd (jsAdd off (nullish0 (dataOffset t))) m"
    and "sp_dts sp = jsAdd time (nullish0 (map_option baseMediaDecodeTime tfdtBox))"
    and "sp_cts sp = sp_dts sp"
    and "sp_duration sp = rowDuration tfhdBox (t, s)"
    and "sp_size sp = rowSize tfhdBox (t, s)"
  using assms
  by (auto simp: sampleStep_def rowDuration_def rowSize_def nullish0_def Let_def
      split: option.splits if_splits)

lemma sum_list_nonneg_rows:
  "list_all (\<lambda>row. 0 \<le> f row \<and> 0 \<le> g row) rows \<Longrightarrow>
     0 \<le> sum_list (map f rows) \<and> 0 \<le> sum_list (map g rows)"
  for f g :: "'a \<Rightarrow> int"
  by (induction rows) auto

lemma samplesLoop_exact:
  assumes "samplesLoop tfhdBox tfdtBox m t i ss (off, time, acc) = Inr (off', time', acc')"
    and "0 \<le> off" and "0 \<le> time"
    and "0 \<le> nullish0 (map_option baseMediaDecodeTime tfdtBox)" and "0 \<le> m"
    and "list_all (\<lambda>row. 0 \<le> rowDuration tfhdBox row \<and> 0 \<le> rowSize tfhdBox row)
           (map (Pair t) ss)"
    and "time + sum_list (map (rowDuration tfhdBox) (map (Pair t) ss))
           + nullish0 (map_option baseMediaDecodeTime tfdtBox) \<le> 9007199254740992"
    and "off + sum_list (map (rowSize tfhdBox) (map (Pair t) ss))
           + \<bar>nullish0 (dataOffset t)\<bar> + m \<le> 9007199254740992"
  shows "\<exists>new. acc' = acc @ new \<and> length new = length ss
      \<and> off' = off + sum_list (map (rowSize tfhdBox) (map (Pair t) ss))
      \<and> time' = time + sum_list (map (rowDuration tfhdBox) (map (Pair t) ss))
      \<and> (\<forall>k<length ss.
            sp_duration (new ! k) = rowDuration tfhdBox (t, ss ! k)
          \<and> sp_size (new ! k) = rowSize tfhdBox (t, ss ! k)
          \<and> sp_dts (new ! k) = time + sum_list (map (rowDuration tfhdBox) (take k (map (Pair t) ss)))
                + nullish0 (map_option baseMediaDecodeTime tfdtBox)
          \<and> sp_offset (new ! k) = off + sum_list (map (rowSize tfhdBox) (take k (map (Pair t) ss)))
                + nullish0 (dataOffset t) + m)"
  using assms
proof (induction ss arbitrary: i off time acc)
  case Nil
  then show ?case by simp
next
  case (Cons s ss)
  let ?base = "nullish0 (map_option baseMediaDecodeTime tfdtBox)"
  let ?d = "nullish0 (dataOffset t)"
  let ?dur = "rowDuration tfhdBox"
  let ?sz = "rowSize tfhdBox"
  let ?rows = "map (Pair t) ss"
  from Cons.prems(1) obtain sp where
    step: "sampleStep tfhdBox tfdtBox m t i s off time = Inr sp"
    and rest: "samplesLoop tfhdBox tfdtBox m t (Suc i) ss
        (jsAdd off (sp_size sp), jsAdd time (sp_duration sp), acc @ [sp]) = Inr (off', time', acc')"
    by (auto split: sum.splits)
  note f = sampleStep_fields[OF step]
  from Cons.prems(6) have nn: "0 \<le> ?dur (t, s)" "0 \<le> ?sz (t, s)"
    and nnrest: "list_all (\<lambda>row. 0 \<le> ?dur row \<and> 0 \<le> ?sz row) ?rows"
    by simp_all
  from sum_list_nonneg_rows[OF nnrest]
  have sums: "0 \<le> sum_list (map ?dur ?rows)" "0 \<le> sum_list (map ?sz ?rows)" by simp_all
  from Cons.prems(7) have tb: "time + ?dur (t, s) + sum_list (map ?dur ?rows) + ?base
      \<le> 9007199254740992" by simp
  from Cons.prems(8) have ob: "off + ?sz (t, s) + sum_list (map ?sz ?rows) + \<bar>?d\<bar> + m
      \<le> 9007199254740992" by simp
  have t1: "jsAdd time (sp_duration sp) = time + ?dur (t, s)"
    using Cons.prems(3,4) nn sums tb f(4) by (intro trans[OF jsAdd_exact]) auto
  have o1: "jsAdd off (sp_size sp) = off + ?sz (t, s)"
    using Cons.prems(2,5) nn sums ob f(5) by (intro trans[OF jsAdd_exact]) auto
  have dts: "sp_dts sp = time + ?base"
    using Cons.prems(3,4) nn sums tb f(2) by (simp add: jsAdd_exact)
  have od: "jsAdd off ?d = off + ?d"
    using Cons.prems(2,5) nn sums ob by (intro jsAdd_exact) (auto simp: abs_le_iff)
  have offs: "sp_offset sp = off + ?d + m"
    unfolding f(1) od
    using Cons.prems(2,5) nn sums ob by (intro jsAdd_exact) (auto simp: abs_le_iff)
  have rest': "samplesLoop tfhdBox tfdtBox m t (Suc i) ss
        (off + ?sz (t, s), time + ?dur (t, s), acc @ [sp]) = Inr (off', time', acc')"
    using rest by (simp only: t1 o1)
  have "\<exists>new. acc' = (acc @ [sp]) @ new \<and> length new = length ss
      \<and> off' = off + ?sz (t, s) + sum_list (map ?sz ?rows)
      \<and> time' = time + ?dur (t, s) + sum_list (map ?dur ?rows)
      \<and> (\<forall>k<length ss.
            sp_duration (new ! k) = ?dur (t, ss ! k)
          \<and> sp_size (new ! k) = ?sz (t, ss ! k)
          \<and> sp_dts (new ! k) = time + ?dur (t, s) + sum_list (map ?dur (take k ?rows)) + ?base
          \<and> sp_offset (new ! k) = off + ?sz (t, s) + sum_list (map ?sz (take k ?rows)) + ?d + m)"
  proof (rule Cons.IH[OF rest'])
    show "0 \<le> off + ?sz (t, s)" using Cons.prems(2) nn by simp
    show "0 \<le> time + ?dur (t, s)" using Cons.prems(3) nn by simp
    show "0 \<le> ?base" by (rule Cons.prems(4))
    show "0 \<le> m" by (rule Cons.prems(5))
    show "list_all (\<lambda>row. 0 \<le> ?dur row \<and> 0 \<le> ?sz row) ?rows" by (rule nnrest)
    show "time + ?dur (t, s) + sum_list (map ?dur ?rows) + ?base \<le> 9007199254740992"
      by (rule tb)
    show "off + ?sz (t, s) + sum_list (map ?sz ?rows) + \<bar>?d\<bar> + m \<le> 9007199254740992"
      by (rule ob)
  qed
  then obtain new where
    n: "acc' = (acc @ [sp]) @ new" "length new = length ss"
       "off' = off + ?sz (t, s) + sum_list (map ?sz ?rows)"
       "time' = time + ?dur (t, s) + sum_list (map ?dur ?rows)"
    and nk: "\<And>k. k < length ss \<Longrightarrow>
            sp_duration (new ! k) = ?dur (t, ss ! k)
          \<and> sp_size (new ! k) = ?sz (t, ss ! k)
          \<and> sp_dts (new ! k) = time + ?dur (t, s) + sum_list (map ?dur (take k ?rows)) + ?base
          \<and> sp_offset (new ! k) = off + ?sz (t, s) + sum_list (map ?sz (take k ?rows)) + ?d + m"
    by blast
  have "sp_duration ((sp # new) ! k) = ?dur (t, (s # ss) ! k)
          \<and> sp_size ((sp # new) ! k) = ?sz (t, (s # ss) ! k)
          \<and> sp_dts ((sp # new) ! k) =
              time + sum_list (map ?dur (take k (map (Pair t) (s # ss)))) + ?base
          \<and> sp_offset ((sp # new) ! k) =
              off + sum_list (map ?sz (take k (map (Pair t) (s # ss)))) + ?d + m"
    if k: "k < length (s # ss)" for k
  proof (cases k)
    case 0
    then show ?thesis using f(4,5) dts offs by simp
  next
    case (Suc j)
    then have "j < length ss" using k by simp
    from nk[OF this] show ?thesis using Suc by simp
  qed
  then show ?case using n by (intro exI[of _ "sp # new"]) simp
qed

text \<open>The invariant of the outer loop, over all the truns of the traf.\<close>

lemma trafRows_Cons:
  "trafRows (t # ts) = map (Pair t) (samples t) @ trafRows ts"
  by (simp add: trafRows_def)

lemma trunLoop_exact:
  assumes "trunLoop tfhdBox tfdtBox m truns (off, time, acc) = Inr (off', time', acc')"
    and "0 \<le> off" and "0 \<le> time"
    and "0 \<le> nullish0 (map_option baseMediaDecodeTime tfdtBox)" and "0 \<le> m"
    and "list_all (\<lambda>row. 0 \<le> rowDuration tfhdBox row \<and> 0 \<le> rowSize tfhdBox row)
           (trafRows truns)"
    and "time + sum_list (map (rowDuration tfhdBox) (trafRows truns))
           + nullish0 (map_option baseMediaDecodeTime tfdtBox) \<le> 9007199254740992"
    and "list_all (\<lambda>t. off + sum_list (map (rowSize tfhdBox) (trafRows truns))
           + \<bar>nullish0 (dataOffset t)\<bar> + m \<le> 9007199254740992) truns"
  shows "\<exists>new. acc' = acc @ new \<and> length new = length (trafRows truns)
      \<and> (\<forall>k<length (trafRows truns).
            sp_duration (new ! k) = rowDuration tfhdBox (trafRows truns ! k)
          \<and> sp_size (new ! k) = rowSize tfhdBox (trafRows truns ! k)
          \<and> sp_dts (new ! k) = time + sum_list (map (rowDuration tfhdBox) (take k (trafRows truns)))
                + nullish0 (map_option baseMediaDecodeTime tfdtBox)
          \<and> sp_offset (new ! k) = off + sum_list (map (rowSize tfhdBox) (take k (trafRows truns)))
                + nullish0 (dataOffset (fst (trafRows truns ! k))) + m)"
  using assms
proof (induction truns arbitrary: off time acc)
  case Nil
  then show ?case by (simp add: trafRows_def)
next
  case (Cons t ts)
  let ?base = "nullish0 (map_option baseMediaDecodeTime tfdtBox)"
  let ?dur = "rowDuration tfhdBox"
  let ?sz = "rowSize tfhdBox"
  let ?here = "map (Pair t) (samples t)"
  let ?later = "trafRows ts"
  let ?nn = "\<lambda>row. 0 \<le> ?dur row \<and> 0 \<le> ?sz row"
  from Cons.prems(1) obtain off1 time1 acc1 where
    inner: "samplesLoop tfhdBox tfdtBox m t 0 (samples t) (off, time, acc) = Inr (off1, time1, acc1)"
    and rest: "trunLoop tfhdBox tfdtBox m ts (off1, time1, acc1) = Inr (off', time', acc')"
    by (auto split: sum.splits)
  from Cons.prems(6) have nnh: "list_all ?nn ?here" and nnl: "list_all ?nn ?later"
    by (simp_all add: trafRows_Cons)
  from sum_list_nonneg_rows[OF nnh]
  have sh: "0 \<le> sum_list (map ?dur ?here)" "0 \<le> sum_list (map ?sz ?here)" by simp_all
  from sum_list_nonneg_rows[OF nnl]
  have sl: "0 \<le> sum_list (map ?dur ?later)" "0 \<le> sum_list (map ?sz ?later)" by simp_all
  from Cons.prems(7) have tb: "time + sum_list (map ?dur ?here) + sum_list (map ?dur ?later)
      + ?base \<le> 9007199254740992"
    by (simp add: trafRows_Cons)
  from Cons.prems(8) have ob: "off + sum_list (map ?sz ?here) + sum_list (map ?sz ?later)
      + \<bar>nullish0 (dataOffset t)\<bar> + m \<le> 9007199254740992"
    and obl: "list_all (\<lambda>u. off + sum_list (map ?sz ?here) + sum_list (map ?sz ?later)
           + \<bar>nullish0 (dataOffset u)\<bar> + m \<le> 9007199254740992) ts"
    by (simp_all add: trafRows_Cons add.assoc)
  have "\<exists>new. acc1 = acc @ new \<and> length new = length (samples t)
      \<and> off1 = off + sum_list (map ?sz ?here)
      \<and> time1 = time + sum_list (map ?dur ?here)
      \<and> (\<forall>k<length (samples t).
            sp_duration (new ! k) = ?dur (t, samples t ! k)
          \<and> sp_size (new ! k) = ?sz (t, samples t ! k)
          \<and> sp_dts (new ! k) = time + sum_list (map ?dur (take k ?here)) + ?base
          \<and> sp_offset (new ! k) = off + sum_list (map ?sz (take k ?here))
                + nullish0 (dataOffset t) + m)"
  proof (rule samplesLoop_exact[OF inner Cons.prems(2,3,4,5) nnh])
    show "time + sum_list (map ?dur ?here) + ?base \<le> 9007199254740992"
      using tb sl by simp
    show "off + sum_list (map ?sz ?here) + \<bar>nullish0 (dataOffset t)\<bar> + m \<le> 9007199254740992"
      using ob sl by simp
  qed
  then obtain new1 where
    a: "acc1 = acc @ new1" "length new1 = length (samples t)"
       "off1 = off + sum_list (map ?sz ?here)"
       "time1 = time + sum_list (map ?dur ?here)"
    and ak: "\<And>k. k < length (samples t) \<Longrightarrow>
            sp_duration (new1 ! k) = ?dur (t, samples t ! k)
          \<and> sp_size (new1 ! k) = ?sz (t, samples t ! k)
          \<and> sp_dts (new1 ! k) = time + sum_list (map ?dur (take k ?here)) + ?base
          \<and> sp_offset (new1 ! k) = off + sum_list (map ?sz (take k ?here))
                + nullish0 (dataOffset t) + m"
    by blast
  have "\<exists>new. acc' = acc1 @ new \<and> length new = length ?later
      \<and> (\<forall>k<length ?later.
            sp_duration (new ! k) = ?dur (?later ! k)
          \<and> sp_size (new ! k) = ?sz (?later ! k)
          \<and> sp_dts (new ! k) = time1 + sum_list (map ?dur (take k ?later)) + ?base
          \<and> sp_offset (new ! k) = off1 + sum_list (map ?sz (take k ?later))
                + nullish0 (dataOffset (fst (?later ! k))) + m)"
  proof (rule Cons.IH[OF rest])
    show "0 \<le> off1" using a(3) Cons.prems(2) sh by simp
    show "0 \<le> time1" using a(4) Cons.prems(3) sh by simp
    show "0 \<le> ?base" by (rule Cons.prems(4))
    show "0 \<le> m" by (rule Cons.prems(5))
    show "list_all ?nn ?later" by (rule nnl)
    show "time1 + sum_list (map ?dur ?later) + ?base \<le> 9007199254740992"
      using tb a(4) by simp
    show "list_all (\<lambda>u. off1 + sum_list (map ?sz ?later) + \<bar>nullish0 (dataOffset u)\<bar> + m
            \<le> 9007199254740992) ts"
      using obl a(3) by simp
  qed
  then obtain new2 where
    b: "acc' = acc1 @ new2" "length new2 = length ?later"
    and bk: "\<And>k. k < length ?later \<Longrightarrow>
            sp_duration (new2 ! k) = ?dur (?later ! k)
          \<and> sp_size (new2 ! k) = ?sz (?later ! k)
          \<and> sp_dts (new2 ! k) = time1 + sum_list (map ?dur (take k ?later)) + ?base
          \<and> sp_offset (new2 ! k) = off1 + sum_list (map ?sz (take k ?later))
                + nullish0 (dataOffset (fst (?later ! k))) + m"
    by blast
  let ?new = "new1 @ new2"
  let ?rows = "trafRows (t # ts)"
  have rows: "?rows = ?here @ ?later" by (rule trafRows_Cons)
  have lh: "length ?here = length new1" using a(2) by simp
  have "sp_duration (?new ! k) = ?dur (?rows ! k)
          \<and> sp_size (?new ! k) = ?sz (?rows ! k)
          \<and> sp_dts (?new ! k) = time + sum_list (map ?dur (take k ?rows)) + ?base
          \<and> sp_offset (?new ! k) = off + sum_list (map ?sz (take k ?rows))
                + nullish0 (dataOffset (fst (?rows ! k))) + m"
    if k: "k < length ?rows" for k
  proof (cases "k < length new1")
    case True
    then have kk: "k < length (samples t)" using a(2) by simp
    have "?rows ! k = (t, samples t ! k)"
      using kk by (simp add: rows nth_append)
    then show ?thesis using ak[OF kk] True lh by (simp add: rows nth_append)
  next
    case False
    define j where "j = k - length new1"
    have kj: "k = length new1 + j" using False by (simp add: j_def)
    have j: "j < length ?later" using k kj lh by (simp add: rows)
    have r: "?rows ! k = ?later ! j"
      using kj lh by (simp add: rows nth_append)
    have tk: "take k ?rows = ?here @ take j ?later"
      using kj lh by (simp add: rows)
    show ?thesis using bk[OF j] a(3,4) kj r tk by (simp add: nth_append)
  qed
  then show ?case using a(1,2) b(1,2)
    by (intro exI[of _ ?new]) (simp add: rows)
qed

text \<open>
  Whatever the numbers, cts and dts of a sample are the same sum, formed twice.
\<close>

lemma samplesLoop_cts:
  assumes "samplesLoop tfhdBox tfdtBox m t i ss (off, time, acc) = Inr (off', time', acc')"
    and "\<forall>s\<in>set acc. sp_cts s = sp_dts s"
  shows "\<forall>s\<in>set acc'. sp_cts s = sp_dts s"
  using assms
proof (induction ss arbitrary: i off time acc)
  case Nil
  then show ?case by simp
next
  case (Cons s ss)
  from Cons.prems(1) obtain sp where
    step: "sampleStep tfhdBox tfdtBox m t i s off time = Inr sp"
    and rest: "samplesLoop tfhdBox tfdtBox m t (Suc i) ss
        (jsAdd off (sp_size sp), jsAdd time (sp_duration sp), acc @ [sp]) = Inr (off', time', acc')"
    by (auto split: sum.splits)
  have "\<forall>s\<in>set (acc @ [sp]). sp_cts s = sp_dts s"
    using Cons.prems(2) sampleStep_fields(3)[OF step] by simp
  from Cons.IH[OF rest this] show ?case .
qed

lemma trunLoop_cts:
  assumes "trunLoop tfhdBox tfdtBox m truns (off, time, acc) = Inr (off', time', acc')"
    and "\<forall>s\<in>set acc. sp_cts s = sp_dts s"
  shows "\<forall>s\<in>set acc'. sp_cts s = sp_dts s"
  using assms
proof (induction truns arbitrary: off time acc)
  case Nil
  then show ?case by simp
next
  case (Cons t ts)
  from Cons.prems(1) obtain off1 time1 acc1 where
    inner: "samplesLoop tfhdBox tfdtBox m t 0 (samples t) (off, time, acc) = Inr (off1, time1, acc1)"
    and rest: "trunLoop tfhdBox tfdtBox m ts (off1, time1, acc1) = Inr (off', time', acc')"
    by (auto split: sum.splits)
  from Cons.IH[OF rest samplesLoop_cts[OF inner Cons.prems(2)]] show ?case .
qed

lemma traf_cts_eq_dts:
  assumes "getSamplesFromTraf tr traf moofOffset = Inr out" and "s \<in> set out"
  shows "sp_cts s = sp_dts s"
proof -
  from assms(1) obtain off' time' where
    "trunLoop (getTfhdBox tr traf) (getTfdtBox tr traf) moofOffset
       (getTrunBoxes tr traf) (0, 0, []) = Inr (off', time', out)"
    by (auto simp: getSamplesFromTraf_def split: if_splits sum.splits)
  from trunLoop_cts[OF this] assms(2) show ?thesis by simp
qed

text \<open>
  Within the safe integers every sum is exact: the samples carry the durations and sizes
  their rows resolve to, and decode times and offsets are the running sums.
\<close>

lemma traf_positions_exact:
  assumes run: "getSamplesFromTraf tr traf moofOffset = Inr out"
    and safe: "withinSafeIntegers (getTfhdBox tr traf) (getTfdtBox tr traf)
                 (getTrunBoxes tr traf) moofOffset"
  shows "length out = length (trafRows (getTrunBoxes tr traf))"
    and "map sp_duration out = map (rowDuration (getTfhdBox tr traf)) (trafRows (getTrunBoxes tr traf))"
    and "map sp_size out = map (rowSize (getTfhdBox tr traf)) (trafRows (getTrunBoxes tr traf))"
    and "k < length out \<Longrightarrow>
          sp_dts (out ! k) = nullish0 (map_option baseMediaDecodeTime (getTfdtBox tr traf))
              + sum_list (map sp_duration (take k out))"
    and "k < length out \<Longrightarrow>
          sp_offset (out ! k) = moofOffset
              + nullish0 (dataOffset (fst (trafRows (getTrunBoxes tr traf) ! k)))
              + sum_list (map sp_size (take k out))"
proof -
  let ?tfhd = "getTfhdBox tr traf"
  let ?tfdt = "getTfdtBox tr traf"
  let ?truns = "getTrunBoxes tr traf"
  let ?rows = "trafRows ?truns"
  let ?base = "nullish0 (map_option baseMediaDecodeTime ?tfdt)"
  from run obtain off' time' where
    loop: "trunLoop ?tfhd ?tfdt moofOffset ?truns (0, 0, []) = Inr (off', time', out)"
    by (auto simp: getSamplesFromTraf_def split: if_splits sum.splits)
  have "\<exists>new. out = [] @ new \<and> length new = length ?rows
      \<and> (\<forall>k<length ?rows.
            sp_duration (new ! k) = rowDuration ?tfhd (?rows ! k)
          \<and> sp_size (new ! k) = rowSize ?tfhd (?rows ! k)
          \<and> sp_dts (new ! k) = 0 + sum_list (map (rowDuration ?tfhd) (take k ?rows)) + ?base
          \<and> sp_offset (new ! k) = 0 + sum_list (map (rowSize ?tfhd) (take k ?rows))
                + nullish0 (dataOffset (fst (?rows ! k))) + moofOffset)"
  proof (rule trunLoop_exact[OF loop])
    show "(0::int) \<le> 0" by simp
    show "(0::int) \<le> 0" by simp
    show "0 \<le> ?base" using safe by (simp add: withinSafeIntegers_def)
    show "0 \<le> moofOffset" using safe by (simp add: withinSafeIntegers_def)
    show "list_all (\<lambda>row. 0 \<le> rowDuration ?tfhd row \<and> 0 \<le> rowSize ?tfhd row) ?rows"
      using safe by (simp add: withinSafeIntegers_def)
    show "0 + sum_list (map (rowDuration ?tfhd) ?rows) + ?base \<le> 9007199254740992"
      using safe by (simp add: withinSafeIntegers_def add.commute)
    show "list_all (\<lambda>t. 0 + sum_list (map (rowSize ?tfhd) ?rows) + \<bar>nullish0 (dataOffset t)\<bar>
            + moofOffset \<le> 9007199254740992) ?truns"
    proof -
      have "list_all (\<lambda>t. moofOffset + \<bar>nullish0 (dataOffset t)\<bar>
                  + sum_list (map (rowSize ?tfhd) ?rows) \<le> 9007199254740992) ?truns"
        using safe by (simp add: withinSafeIntegers_def)
      then show ?thesis by (rule list.pred_mono_strong) simp
    qed
  qed
  then have len: "length out = length ?rows"
    and row: "\<And>k. k < length ?rows \<Longrightarrow>
            sp_duration (out ! k) = rowDuration ?tfhd (?rows ! k)
          \<and> sp_size (out ! k) = rowSize ?tfhd (?rows ! k)
          \<and> sp_dts (out ! k) = sum_list (map (rowDuration ?tfhd) (take k ?rows)) + ?base
          \<and> sp_offset (out ! k) = sum_list (map (rowSize ?tfhd) (take k ?rows))
                + nullish0 (dataOffset (fst (?rows ! k))) + moofOffset"
    by auto
  show "length out = length ?rows" by (rule len)
  show durs: "map sp_duration out = map (rowDuration ?tfhd) ?rows"
    using len row by (intro nth_equalityI) simp_all
  show sizes: "map sp_size out = map (rowSize ?tfhd) ?rows"
    using len row by (intro nth_equalityI) simp_all
  {
    assume k: "k < length out"
    then have kr: "k < length ?rows" using len by simp
    have d: "map sp_duration (take k out) = map (rowDuration ?tfhd) (take k ?rows)"
      using durs by (simp add: take_map[symmetric])
    have z: "map sp_size (take k out) = map (rowSize ?tfhd) (take k ?rows)"
      using sizes by (simp add: take_map[symmetric])
    from row[OF kr]
    show "sp_dts (out ! k) = ?base + sum_list (map sp_duration (take k out))"
      and "sp_offset (out ! k) = moofOffset + nullish0 (dataOffset (fst (?rows ! k)))
              + sum_list (map sp_size (take k out))"
      by (simp_all add: d z)
  }
qed

text \<open>
  The scenario, evaluated for any moof offset \<open>m\<close> and data offset \<open>d\<close> that keep the
  offsets within the safe integers.
\<close>

lemma scenario_result:
  assumes "0 \<le> d" and "0 \<le> m" and "m + d + 5120 \<le> 9007199254740992"
  shows "getSamplesFromTraf childTraversal (scenarioTraf d) m =
     Inr [\<lparr> sp_offset = m + d, sp_dts = 90000, sp_cts = 90000, sp_duration = 3000,
            sp_isKeyframe = True, sp_size = 4096 \<rparr>,
          \<lparr> sp_offset = m + d + 4096, sp_dts = 93000, sp_cts = 93000, sp_duration = 3000,
            sp_isKeyframe = False, sp_size = 1024 \<rparr>,
          \<lparr> sp_offset = m + d + 5120, sp_dts = 96000, sp_cts = 96000, sp_duration = 3000,
            sp_isKeyframe = False, sp_size = 1024 \<rparr>]"
proof -
  have o: "jsAdd (jsAdd 0 d) m = m + d" "jsAdd (jsAdd 4096 d) m = m + d + 4096"
    "jsAdd (jsAdd 5120 d) m = m + d + 5120"
    using assms by (simp_all add: jsAdd_exact)
  show ?thesis
    by (simp add: getSamplesFromTraf_def scenarioTraf_def childTraversal_def sampleStep_def
      nullish_def nullish0_def truthy_def keyframeOfFlags_def Let_def jsAdd_exact o)
qed

text \<open>
  Claim C1, as stated, fails.  With a base decode time of \<open>2^53\<close> and durations of 1, the
  second sample's dts is \<open>2^53\<close> and not \<open>2^53 + 1\<close>, the base decode time plus the
  duration of the sample before it: the sum \<^verbatim>\<open>time + baseMediaDecodeTime\<close> is a sum of
  doubles.
\<close>

theorem late_decode_time_rounds_dts:
  "getSamplesFromTraf childTraversal lateTraf 0 =
     Inr [\<lparr> sp_offset = 0, sp_dts = 9007199254740992, sp_cts = 9007199254740992,
            sp_duration = 1, sp_isKeyframe = False, sp_size = 1 \<rparr>,
          \<lparr> sp_offset = 1, sp_dts = 9007199254740992, sp_cts = 9007199254740992,
            sp_duration = 1, sp_isKeyframe = False, sp_size = 1 \<rparr>,
          \<lparr> sp_offset = 2, sp_dts = 9007199254740994, sp_cts = 9007199254740994,
            sp_duration = 1, sp_isKeyframe = False, sp_size = 1 \<rparr>]
   \<and> nullish0 (map_option baseMediaDecodeTime (getTfdtBox childTraversal lateTraf))
       = 9007199254740992"
  by (simp add: getSamplesFromTraf_def lateTraf_def childTraversal_def sampleStep_def
      nullish_def nullish0_def truthy_def keyframeOfFlags_def Let_def jsAdd_exact
      jsAdd_tie jsAdd_even)

text \<open>
  Claim C1, amended.  Let the durations and sizes the rows of a traf resolve to, its base
  decode time and the moof offset be not negative, and let the last decode time, and the
  end of the data with any data offset of the traf, not exceed \<open>2^53\<close>.  Then the
  resolver yields one sample per row, with the duration and size the row resolves to; the
  \<open>k\<close>-th sample's dts is \<^verbatim>\<open>tfdt.baseMediaDecodeTime\<close> (0 when there is no tfdt) plus
  the durations of the samples before it, and its offset is the moof offset plus the data
  offset of its trun (0 when absent) plus the sizes of the samples before it.  In the
  scenario of the specification, for a moof offset \<open>m\<close> and a data offset \<open>d\<close> in that
  range, the resolver yields dts 90000, 93000, 96000, sizes 4096, 1024, 1024 and offsets
  \<open>m + d\<close>, \<open>m + d + 4096\<close>, \<open>m + d + 5120\<close>.
\<close>

theorem getSamplesFromTraf_positions_in_safe_range:
  "(getSamplesFromTraf tr traf moofOffset = Inr out
      \<and> withinSafeIntegers (getTfhdBox tr traf) (getTfdtBox tr traf) (getTrunBoxes tr traf)
           moofOffset \<longrightarrow>
      length out = length (trafRows (getTrunBoxes tr traf)) \<and>
      map sp_duration out
        = map (rowDuration (getTfhdBox tr traf)) (trafRows (getTrunBoxes tr traf)) \<and>
      map sp_size out
        = map (rowSize (getTfhdBox tr traf)) (trafRows (getTrunBoxes tr traf)) \<and>
      (\<forall>k<length out.
         sp_dts (out ! k) =
           nullish0 (map_option baseMediaDecodeTime (getTfdtBox tr traf))
             + sum_list (map sp_duration (take k out)) \<and>
         sp_offset (out ! k) =
           moofOffset + nullish0 (dataOffset (fst (trafRows (getTrunBoxes tr traf) ! k)))
             + sum_list (map sp_size (take k out))))
   \<and> (0 \<le> d \<and> 0 \<le> m \<and> m + d + 5120 \<le> 9007199254740992 \<longrightarrow>
       getSamplesFromTraf childTraversal (scenarioTraf d) m =
       Inr [\<lparr> sp_offset = m + d, sp_dts = 90000, sp_cts = 90000, sp_duration = 3000,
              sp_isKeyframe = True, sp_size = 4096 \<rparr>,
            \<lparr> sp_offset = m + d + 4096, sp_dts = 93000, sp_cts = 93000, sp_duration = 3000,
              sp_isKeyframe = False, sp_size = 1024 \<rparr>,
            \<lparr> sp_offset = m + d + 5120, sp_dts = 96000, sp_cts = 96000, sp_duration = 3000,
              sp_isKeyframe = False, sp_size = 1024 \<rparr>])"
proof (intro conjI impI allI)
  assume a: "getSamplesFromTraf tr traf moofOffset = Inr out
      \<and> withinSafeIntegers (getTfhdBox tr traf) (getTfdtBox tr traf) (getTrunBoxes tr traf)
           moofOffset"
  then have run: "getSamplesFromTraf tr traf moofOffset = Inr out"
    and safe: "withinSafeIntegers (getTfhdBox tr traf) (getTfdtBox tr traf)
                 (getTrunBoxes tr traf) moofOffset"
    by simp_all
  note e = traf_positions_exact[OF run safe]
  show "length out = length (trafRows (getTrunBoxes tr traf))" by (rule e(1))
  show "map sp_duration out
        = map (rowDuration (getTfhdBox tr traf)) (trafRows (getTrunBoxes tr traf))" by (rule e(2))
  show "map sp_size out
        = map (rowSize (getTfhdBox tr traf)) (trafRows (getTrunBoxes tr traf))" by (rule e(3))
  fix k assume k: "k < length out"
  show "sp_dts (out ! k) =
           nullish0 (map_option baseMediaDecodeTime (getTfdtBox tr traf))
             + sum_list (map sp_duration (take k out))" by (rule e(4)[OF k])
  show "sp_offset (out ! k) =
           moofOffset + nullish0 (dataOffset (fst (trafRows (getTrunBoxes tr traf) ! k)))
             + sum_list (map sp_size (take k out))" by (rule e(5)[OF k])
next
  assume "0 \<le> d \<and> 0 \<le> m \<and> m + d + 5120 \<le> 9007199254740992"
  then show "getSamplesFromTraf childTraversal (scenarioTraf d) m =
       Inr [\<lparr> sp_offset = m + d, sp_dts = 90000, sp_cts = 90000, sp_duration = 3000,
              sp_isKeyframe = True, sp_size = 4096 \<rparr>,
            \<lparr> sp_offset = m + d + 4096, sp_dts = 93000, sp_cts = 93000, sp_duration = 3000,
              sp_isKeyframe = False, sp_size = 1024 \<rparr>,
            \<lparr> sp_offset = m + d + 5120, sp_dts = 96000, sp_cts = 96000, sp_duration = 3000,
              sp_isKeyframe = False, sp_size = 1024 \<rparr>]"
    by (intro scenario_result) simp_all
qed

text \<open>The amended claim at the scenario with moof offset 1000 and data offset 100.\<close>

lemma scenario_safe:
  "withinSafeIntegers (getTfhdBox childTraversal (scenarioTraf 100))
     (getTfdtBox childTraversal (scenarioTraf 100))
     (getTrunBoxes childTraversal (scenarioTraf 100)) 1000"
  by (simp add: withinSafeIntegers_def childTraversal_def scenarioTraf_def trafRows_def
      rowDuration_def rowSize_def nullish_def nullish0_def)

theorem getSamplesFromTraf_positions_in_safe_range_witness:
  "getSamplesFromTraf childTraversal (scenarioTraf 100) 1000 =
     Inr [\<lparr> sp_offset = 1100, sp_dts = 90000, sp_cts = 90000, sp_duration = 3000,
            sp_isKeyframe = True, sp_size = 4096 \<rparr>,
          \<lparr> sp_offset = 5196, sp_dts = 93000, sp_cts = 93000, sp_duration = 3000,
            sp_isKeyframe = False, sp_size = 1024 \<rparr>,
          \<lparr> sp_offset = 6220, sp_dts = 96000, sp_cts = 96000, sp_duration = 3000,
            sp_isKeyframe = False, sp_size = 1024 \<rparr>]
   \<and> withinSafeIntegers (getTfhdBox childTraversal (scenarioTraf 100))
        (getTfdtBox childTraversal (scenarioTraf 100))
        (getTrunBoxes childTraversal (scenarioTraf 100)) 1000
   \<and> length (trafRows (getTrunBoxes childTraversal (scenarioTraf 100))) = 3
   \<and> map (rowDuration (getTfhdBox childTraversal (scenarioTraf 100)))
        (trafRows (getTrunBoxes childTraversal (scenarioTraf 100))) = [3000, 3000, 3000]
   \<and> map (rowSize (getTfhdBox childTraversal (scenarioTraf 100)))
        (trafRows (getTrunBoxes childTraversal (scenarioTraf 100))) = [4096, 1024, 1024]"
proof -
  let ?out = "[\<lparr> sp_offset = 1100, sp_dts = 90000, sp_cts = 90000, sp_duration = 3000,
            sp_isKeyframe = True, sp_size = 4096 \<rparr>,
          \<lparr> sp_offset = 5196, sp_dts = 93000, sp_cts = 93000, sp_duration = 3000,
            sp_isKeyframe = False, sp_size = 1024 \<rparr>,
          \<lparr> sp_offset = 6220, sp_dts = 96000, sp_cts = 96000, sp_duration = 3000,
            sp_isKeyframe = False, sp_size = 1024 \<rparr>]"
  have r: "getSamplesFromTraf childTraversal (scenarioTraf 100) 1000 = Inr ?out"
    using scenario_result[of 100 1000] by simp
  from getSamplesFromTraf_positions_in_safe_range[of childTraversal "scenarioTraf 100" 1000 ?out]
    r scenario_safe
  have "length ?out = length (trafRows (getTrunBoxes childTraversal (scenarioTraf 100)))
      \<and> map sp_duration ?out = map (rowDuration (getTfhdBox childTraversal (scenarioTraf 100)))
        (trafRows (getTrunBoxes childTraversal (scenarioTraf 100)))
      \<and> map sp_size ?out = map (rowSize (getTfhdBox childTraversal (scenarioTraf 100)))
        (trafRows (getTrunBoxes childTraversal (scenarioTraf 100)))"
    by blast
  then show ?thesis using r scenario_safe by simp
qed

text \<open>
  A moof hands each traf of the wanted track its own offset: the samples of a moof are
  those of its matching trafs, in order, each resolved with \<^verbatim>\<open>segment.offset\<close>.
\<close>

lemma mapTrafs_concat:
  "mapTrafs tr moofOffset wanted trafs = Inr out \<Longrightarrow>
    \<exists>outs. out = concat outs \<and>
      list_all2 (\<lambda>traf part. getSamplesFromTraf tr traf moofOffset = Inr part)
        (filter (\<lambda>t. map_option trackId (getTfhdBox tr t) = Some wanted) trafs) outs"
proof (induction trafs arbitrary: out)
  case Nil
  then show ?case by simp
next
  case (Cons traf rest)
  from Cons.prems obtain here others where
    h: "(if map_option trackId (getTfhdBox tr traf) = Some wanted
           then getSamplesFromTraf tr traf moofOffset else Inr []) = Inr here"
    and o: "mapTrafs tr moofOffset wanted rest = Inr others"
    and out: "out = here @ others"
    by (auto split: sum.splits)
  from Cons.IH[OF o] obtain outs where
    outs: "others = concat outs"
      "list_all2 (\<lambda>traf part. getSamplesFromTraf tr traf moofOffset = Inr part)
        (filter (\<lambda>t. map_option trackId (getTfhdBox tr t) = Some wanted) rest) outs"
    by blast
  show ?case
  proof (cases "map_option trackId (getTfhdBox tr traf) = Some wanted")
    case True
    with h have "getSamplesFromTraf tr traf moofOffset = Inr here" by (simp only: refl if_True)
    with True outs out show ?thesis
      by (intro exI[of _ "here # outs"]) auto
  next
    case False
    with h have "Inr [] = (Inr here :: error + SamplePosition list)" by (simp only: if_False)
    then have "here = []" by simp
    with False outs out show ?thesis
      by (intro exI[of _ outs]) auto
  qed
qed

lemma getSamplesFromMoof_concat:
  assumes "getSamplesFromMoof tr segment wanted = Inr out"
  shows "\<exists>outs. out = concat outs \<and>
      list_all2 (\<lambda>traf part. getSamplesFromTraf tr traf (boxOffset segment) = Inr part)
        (filter (\<lambda>t. map_option trackId (getTfhdBox tr t) = Some wanted)
           (filter (\<lambda>c. isRegularBox c \<and> boxType c = ''traf'') (children segment))) outs"
proof -
  from assms have "mapTrafs tr (boxOffset segment) wanted
      (filter (\<lambda>c. isRegularBox c \<and> boxType c = ''traf'') (children segment)) = Inr out"
    by (simp add: getSamplesFromMoof_def split: if_splits)
  then show ?thesis by (rule mapTrafs_concat)
qed

section \<open>The fallback chain of a sample\<close>

text \<open>
  Whenever the explicit flags of the sample are absent or not 0, the resolver follows the
  chain of the specification for duration, size and flags, and the keyframe is bit 16 of
  the resolved flags, cleared.
\<close>

lemma sampleStep_chain_nonzero_flags:
  assumes "sampleStep tfhdBox tfdtBox m t i s off time = Inr sp"
    and "sampleFlags s \<noteq> Some 0"
  shows "nullish (sampleDuration s) (Option.bind tfhdBox defaultSampleDuration)
           = Some (sp_duration sp)"
    and "nullish (sampleSize s) (Option.bind tfhdBox defaultSampleSize) = Some (sp_size sp)"
    and "\<exists>fl. specSampleFlags tfhdBox t i s = Some fl \<and> sp_isKeyframe sp = keyframeOfFlags fl"
  using assms
  by (auto simp: sampleStep_def specSampleFlags_def truthy_def Let_def
      split: option.splits if_splits)

lemma sampleStep_errors:
  "(\<exists>sp. sampleStep tfhdBox tfdtBox m t i s off time = Inr sp) \<or>
   sampleStep tfhdBox tfdtBox m t i s off time = Inl (Error ''Expected duration'') \<or>
   sampleStep tfhdBox tfdtBox m t i s off time = Inl (Error ''Expected size'') \<or>
   sampleStep tfhdBox tfdtBox m t i s off time = Inl (Error ''Expected sample flags'')"
  by (auto simp: sampleStep_def Let_def split: option.splits)

text \<open>
  Claim C2.  The chain for the flags tests the explicit value for truthiness
  (\<^verbatim>\<open>sample.sampleFlags ? ... : ...\<close>), where duration and size use \<^verbatim>\<open>??\<close>.  An explicit
  \<^verbatim>\<open>sampleFlags\<close> of 0 is therefore skipped: with a tfhd default of \<^verbatim>\<open>0x10000\<close> the
  sample is reported as not a keyframe, although the chain of the specification resolves
  the flags to 0, whose bit 16 is clear; with no default the resolver throws
  \<^verbatim>\<open>Expected sample flags\<close> although the sample carries flags.
\<close>

theorem explicit_zero_sampleFlags_ignored:
  "getSamplesFromTraf childTraversal (zeroFlagsTraf (Some 65536)) 0 =
     Inr [\<lparr> sp_offset = 0, sp_dts = 0, sp_cts = 0, sp_duration = 3000,
            sp_isKeyframe = False, sp_size = 1024 \<rparr>]
   \<and> specSampleFlags
        (getTfhdBox childTraversal (zeroFlagsTraf (Some 65536)))
        (hd (getTrunBoxes childTraversal (zeroFlagsTraf (Some 65536)))) 0
        (hd (samples (hd (getTrunBoxes childTraversal (zeroFlagsTraf (Some 65536)))))) = Some 0
   \<and> keyframeOfFlags 0 = True
   \<and> getSamplesFromTraf childTraversal (zeroFlagsTraf None) 0 =
       Inl (Error ''Expected sample flags'')"
  by (simp add: getSamplesFromTraf_def zeroFlagsTraf_def childTraversal_def sampleStep_def
      specSampleFlags_def nullish_def nullish0_def truthy_def keyframeOfFlags_def Let_def
      jsAdd_exact)

text \<open>The reported keyframe flags at the two inputs, read off the theorem.\<close>

theorem explicit_zero_sampleFlags_ignored_witness:
  "map sp_isKeyframe (projr (getSamplesFromTraf childTraversal (zeroFlagsTraf (Some 65536)) 0))
     = [False]
   \<and> isl (getSamplesFromTraf childTraversal (zeroFlagsTraf None) 0)"
  using explicit_zero_sampleFlags_ignored by simp

section \<open>Composition time of fragmented samples\<close>

lemma mapTrafs_cts:
  "mapTrafs tr moofOffset wanted trafs = Inr out \<Longrightarrow> s \<in> set out \<Longrightarrow> sp_cts s = sp_dts s"
proof (induction trafs arbitrary: out)
  case Nil
  then show ?case by simp
next
  case (Cons traf rest)
  from Cons.prems(1) obtain here others where
    h: "(if map_option trackId (getTfhdBox tr traf) = Some wanted
           then getSamplesFromTraf tr traf moofOffset else Inr []) = Inr here"
    and o: "mapTrafs tr moofOffset wanted rest = Inr others"
    and out: "out = here @ others"
    by (auto split: sum.splits)
  from Cons.prems(2) out consider "s \<in> set here" | "s \<in> set others" by auto
  then show ?case
  proof cases
    case 1
    then have g: "getSamplesFromTraf tr traf moofOffset = Inr here"
      using h by (auto split: if_splits)
    from traf_cts_eq_dts[OF g 1] show ?thesis .
  next
    case 2
    then show ?thesis using Cons.IH[OF o] by simp
  qed
qed

text \<open>
  Claim C10.  Every sample position \<^verbatim>\<open>getSamplesFromTraf\<close> yields, and so every one
  \<^verbatim>\<open>getSamplesFromMoof\<close> yields, has its cts equal to its dts.
\<close>

theorem fragmented_cts_equals_dts:
  "(getSamplesFromTraf tr traf moofOffset = Inr out \<longrightarrow> (\<forall>s\<in>set out. sp_cts s = sp_dts s))
   \<and> (getSamplesFromMoof tr segment wanted = Inr out' \<longrightarrow>
        (\<forall>s\<in>set out'. sp_cts s = sp_dts s))"
proof (intro conjI impI ballI)
  fix s assume "getSamplesFromTraf tr traf moofOffset = Inr out" and "s \<in> set out"
  then show "sp_cts s = sp_dts s" by (rule traf_cts_eq_dts)
next
  fix s assume "getSamplesFromMoof tr segment wanted = Inr out'" and "s \<in> set out'"
  then show "sp_cts s = sp_dts s"
    by (auto simp: getSamplesFromMoof_def split: if_splits dest: mapTrafs_cts)
qed

lemma scenarioMoof_result:
  "getSamplesFromMoof childTraversal scenarioMoof 1 =
     Inr [\<lparr> sp_offset = 1100, sp_dts = 90000, sp_cts = 90000, sp_duration = 3000,
            sp_isKeyframe = True, sp_size = 4096 \<rparr>,
          \<lparr> sp_offset = 5196, sp_dts = 93000, sp_cts = 93000, sp_duration = 3000,
            sp_isKeyframe = False, sp_size = 1024 \<rparr>,
          \<lparr> sp_offset = 6220, sp_dts = 96000, sp_cts = 96000, sp_duration = 3000,
            sp_isKeyframe = False, sp_size = 1024 \<rparr>]"
proof -
  have t: "isRegularBox (scenarioTraf 100)" "boxType (scenarioTraf 100) = ''traf''"
    "map_option trackId (getTfhdBox childTraversal (scenarioTraf 100)) = Some 1"
    by (simp_all add: scenarioTraf_def childTraversal_def)
  have r: "getSamplesFromTraf childTraversal (scenarioTraf 100) 1000 =
     Inr [\<lparr> sp_offset = 1100, sp_dts = 90000, sp_cts = 90000, sp_duration = 3000,
            sp_isKeyframe = True, sp_size = 4096 \<rparr>,
          \<lparr> sp_offset = 5196, sp_dts = 93000, sp_cts = 93000, sp_duration = 3000,
            sp_isKeyframe = False, sp_size = 1024 \<rparr>,
          \<lparr> sp_offset = 6220, sp_dts = 96000, sp_cts = 96000, sp_duration = 3000,
            sp_isKeyframe = False, sp_size = 1024 \<rparr>]"
    using scenario_result[of 100 1000] by simp
  show ?thesis
    by (simp add: getSamplesFromMoof_def scenarioMoof_def t r)
qed

text \<open>The claim at the scenario traf and at a moof that holds it.\<close>

theorem fragmented_cts_equals_dts_witness:
  "map sp_cts (projr (getSamplesFromTraf childTraversal (scenarioTraf 100) 1000))
     = map sp_dts (projr (getSamplesFromTraf childTraversal (scenarioTraf 100) 1000))
   \<and> length (projr (getSamplesFromMoof childTraversal scenarioMoof 1)) = 3
   \<and> map sp_cts (projr (getSamplesFromMoof childTraversal scenarioMoof 1))
     = map sp_dts (projr (getSamplesFromMoof childTraversal scenarioMoof 1))"
  using fragmented_cts_equals_dts[of childTraversal "scenarioTraf 100" 1000
      "projr (getSamplesFromTraf childTraversal (scenarioTraf 100) 1000)"
      scenarioMoof 1 "projr (getSamplesFromMoof childTraversal scenarioMoof 1)"]
    scenario_result[of 100 1000]
  by (simp add: scenarioMoof_result)

section \<open>Serializing a track\<close>

text \<open>
  Claim C7, as stated, fails: the \<^verbatim>\<open>mdhd\<close> of a serialized track does not get the
  timescale of the track.  An H.264 track with timescale 90000 is serialized with the
  \<^verbatim>\<open>mdhd\<close> timescale 1000.
\<close>

theorem mdhd_timescale_not_from_track:
  "serializedMdhdTimescale exampleVideoData = Inr 1000
   \<and> timescale (track exampleVideoData) = 90000"
  by (simp add: serializedMdhdTimescale_def serializeTrack_def exampleVideoData_def
      ISO_BASE_TIMESCALE_def Let_def)

text \<open>
  Claim C7, amended.  \<^verbatim>\<open>ISO_BASE_TIMESCALE\<close> is 1000, and the \<^verbatim>\<open>mdhd\<close> of every track
  that \<^verbatim>\<open>serializeTrack\<close> serializes gets this constant as its timescale, whatever the
  track.
\<close>

theorem mdhd_timescale_fixed:
  "ISO_BASE_TIMESCALE = 1000 \<and>
   (serializeTrack d = Inr trak \<longrightarrow> mdhd_timescale (mdhd (mdia trak)) = ISO_BASE_TIMESCALE)"
  by (auto simp: serializeTrack_def ISO_BASE_TIMESCALE_def Let_def split: if_splits option.splits)

text \<open>The amended claim at the H.264 track.\<close>

theorem mdhd_timescale_fixed_witness:
  "(\<exists>trak. serializeTrack exampleVideoData = Inr trak
       \<and> mdhd_timescale (mdhd (mdia trak)) = 1000)"
proof -
  obtain trak where t: "serializeTrack exampleVideoData = Inr trak"
    by (simp add: serializeTrack_def exampleVideoData_def Let_def)
  from mdhd_timescale_fixed[of exampleVideoData trak] t
  have "mdhd_timescale (mdhd (mdia trak)) = 1000" by simp
  with t show ?thesis by blast
qed

text \<open>
  Claim C8.  A track whose codec is neither \<^verbatim>\<open>h264\<close> nor \<^verbatim>\<open>aac\<close> fails with the error
  \<^verbatim>\<open>Currently only H.264 and AAC is supported\<close>; a track with one of the two codecs never
  fails with it, and is serialized when its \<^verbatim>\<open>codecPrivate\<close> is present.
\<close>

theorem serializeTrack_codec_gate:
  "(codec (track d) \<noteq> ''h264'' \<and> codec (track d) \<noteq> ''aac'' \<longrightarrow>
      serializeTrack d = Inl (Error ''Currently only H.264 and AAC is supported''))
   \<and> ((codec (track d) = ''h264'' \<or> codec (track d) = ''aac'') \<longrightarrow>
        serializeTrack d \<noteq> Inl (Error ''Currently only H.264 and AAC is supported''))
   \<and> ((codec (track d) = ''h264'' \<or> codec (track d) = ''aac'')
        \<and> codecPrivate (track d) \<noteq> None \<longrightarrow> (\<exists>trak. serializeTrack d = Inr trak))"
  by (auto simp: serializeTrack_def Let_def split: option.splits)

text \<open>The claim at a VP8 track and at the H.264 track.\<close>

theorem serializeTrack_codec_gate_witness:
  "serializeTrack exampleVp8Data = Inl (Error ''Currently only H.264 and AAC is supported'')
   \<and> codec (track exampleVideoData) = ''h264''
   \<and> codecPrivate (track exampleVideoData) \<noteq> None
   \<and> (\<exists>trak. serializeTrack exampleVideoData = Inr trak)"
  using serializeTrack_codec_gate[of exampleVp8Data] serializeTrack_codec_gate[of exampleVideoData]
  by (simp add: exampleVp8Data_def exampleVideoData_def)

section \<open>The conversion pipeline\<close>

text \<open>
  Claim C3.  Unless the request is exactly \<^verbatim>\<open>to = 'webm'\<close>, \<^verbatim>\<open>videoCodec = 'vp8'\<close>,
  \<^verbatim>\<open>audioCodec = 'opus'\<close>, the promise \<^verbatim>\<open>convertMedia\<close> returns is rejected with a
  \<^verbatim>\<open>TypeError\<close> and no call has been made: no output is created, no parsing is started.
\<close>

theorem convertMedia_rejects_unsupported:
  "\<not> (opt_to opts = ''webm'' \<and> opt_videoCodec opts = ''vp8'' \<and> opt_audioCodec opts = ''opus'')
   \<Longrightarrow> (\<exists>msg. fst (convertMedia opts env) = Inl (TypeError msg))
       \<and> trace (snd (convertMedia opts env)) = []"
  by (auto simp: convertMedia_def initialPipeline_def)

text \<open>Every callback only adds to the trace, and an accepted request creates the output first.\<close>

lemma trace_call: "trace (call c p) = trace p @ [c]"
  by (simp add: call_def)

lemma trace_notifyCopy: "\<exists>new. trace (notifyCopy obs p) = trace p @ new"
  by (cases obs) (simp_all add: notifyCopy_def)

lemma trace_notifyShared: "\<exists>new. trace (notifyShared obs p) = trace p @ new"
  by (cases obs) (simp_all add: notifyShared_def)

lemma trace_handleEvent: "\<exists>new. trace (handleEvent opts e p) = trace p @ new"
proof (cases e)
  case (VideoTrackFound tk a b)
  then show ?thesis
    using trace_notifyCopy[of "opt_onMediaStateUpdate opts"]
    by (cases "opt_onMediaStateUpdate opts")
       (auto simp: onVideoTrack_def Let_def call_def notifyCopy_def)
next
  case (AudioTrackFound tk a b)
  then show ?thesis
    by (cases "opt_onMediaStateUpdate opts")
       (auto simp: onAudioTrack_def Let_def call_def notifyCopy_def notifyShared_def)
next
  case (VideoChunkEncoded n c)
  then show ?thesis
    by (cases "opt_onMediaStateUpdate opts")
       (auto simp: videoOnChunk_def Let_def call_def notifyCopy_def)
next
  case VideoFrameDecoded
  then show ?thesis
    by (cases "opt_onMediaStateUpdate opts")
       (auto simp: videoOnFrame_def Let_def call_def notifyCopy_def)
next
  case (AudioChunkEncoded n c)
  then show ?thesis
    by (cases "opt_onMediaStateUpdate opts")
       (auto simp: audioOnChunk_def Let_def call_def notifyCopy_def)
next
  case AudioFrameDecoded
  then show ?thesis
    by (cases "opt_onMediaStateUpdate opts")
       (auto simp: audioOnFrame_def Let_def call_def notifyShared_def)
qed

lemma trace_runEvents: "\<exists>new. trace (runEvents opts es p) = trace p @ new"
proof (induction es arbitrary: p)
  case Nil
  then show ?case by simp
next
  case (Cons e es)
  obtain n1 where "trace (handleEvent opts e p) = trace p @ n1"
    using trace_handleEvent by blast
  moreover obtain n2 where
    "trace (runEvents opts es (handleEvent opts e p)) = trace (handleEvent opts e p) @ n2"
    using Cons.IH by blast
  ultimately show ?case by simp
qed

lemma convertMedia_accepted_creates_media_first:
  assumes "opt_to opts = ''webm''" "opt_videoCodec opts = ''vp8''" "opt_audioCodec opts = ''opus''"
  shows "\<exists>rest. trace (snd (convertMedia opts env)) = CreateMedia # rest"
proof -
  obtain new where
    "trace (runEvents opts (events env) (call ParseMedia (call CreateMedia initialPipeline)))
       = trace (call ParseMedia (call CreateMedia initialPipeline)) @ new"
    using trace_runEvents by blast
  then show ?thesis using assms
    by (auto simp: convertMedia_def Let_def call_def initialPipeline_def split: option.splits)
qed

text \<open>The claim at a request for MP4 with H.264 and AAC.\<close>

theorem convertMedia_rejects_unsupported_witness:
  \<open>fst (convertMedia mp4Options (quietEnvironment [VideoFrameDecoded])) =
        Inl (TypeError ''Only `to: "webm"` is supported currently'')
   \<and> trace (snd (convertMedia mp4Options (quietEnvironment [VideoFrameDecoded]))) = []
   \<and> opt_to mp4Options = ''mp4''\<close>
  using convertMedia_rejects_unsupported[of mp4Options "quietEnvironment [VideoFrameDecoded]"]
  by (simp add: mp4Options_def convertMedia_def)


text \<open>
  The calls of the two \<^verbatim>\<open>onChunk\<close> callbacks, for any observer, track, chunk and
  pipeline: the video encoder's passes the rounded end of the chunk in milliseconds to
  \<^verbatim>\<open>state.updateDuration\<close>, the audio encoder's does not call it.
\<close>

lemma audioOnChunk_trace:
  "trace (audioOnChunk obs trackNo chunk p) =
     trace p @ AddSample chunk trackNo #
       (case obs of None \<Rightarrow> [] | Some f \<Rightarrow> [OnMediaStateUpdate (SnapshotRef (length (snapshots p)))])"
  by (cases obs) (simp_all add: audioOnChunk_def Let_def call_def notifyCopy_def)

lemma videoOnChunk_trace:
  "trace (videoOnChunk obs trackNo chunk p) =
     trace p @ AddSample chunk trackNo #
       UpdateDuration (roundDiv1000 (timestamp chunk + nullish0 (chunkDuration chunk))) #
       (case obs of None \<Rightarrow> [] | Some f \<Rightarrow> [OnMediaStateUpdate (SnapshotRef (length (snapshots p)))])"
  by (cases obs) (simp_all add: videoOnChunk_def Let_def call_def notifyCopy_def)

text \<open>
  Claim C6.  The claim holds for the chunks of a video encoder and fails for those of an
  audio encoder: for a chunk at 1000000 microseconds that lasts 20000, the video callback
  adds the sample, updates the duration to 1020 and notifies the observer with a copy;
  the audio callback adds the sample and notifies the observer with a copy, and never
  updates the duration.
\<close>

theorem audio_chunk_skips_duration_update:
  "trace (audioOnChunk (Some id) 2 exampleChunk initialPipeline) =
     [AddSample exampleChunk 2, OnMediaStateUpdate (SnapshotRef 0)]
   \<and> trace (videoOnChunk (Some id) 1 exampleChunk initialPipeline) =
     [AddSample exampleChunk 1, UpdateDuration 1020, OnMediaStateUpdate (SnapshotRef 0)]"
  by (simp add: audioOnChunk_trace videoOnChunk_trace initialPipeline_def exampleChunk_def
      roundDiv1000_def nullish0_def)

text \<open>The calls of the audio callback at that chunk, read off the theorem.\<close>

theorem audio_chunk_skips_duration_update_witness:
  "trace (audioOnChunk (Some id) 2 exampleChunk initialPipeline) =
     [AddSample exampleChunk 2, OnMediaStateUpdate (SnapshotRef 0)]"
  using audio_chunk_skips_duration_update by simp

text \<open>
  The sites that hand the observer a copy: the copies are only ever appended to, so a
  copy that has been delivered is never changed by a later callback.
\<close>

lemma snapshots_handleEvent:
  "\<exists>new. snapshots (handleEvent opts e p) = snapshots p @ new"
  by (cases e; cases "opt_onMediaStateUpdate opts")
     (auto simp: onVideoTrack_def onAudioTrack_def videoOnChunk_def videoOnFrame_def
        audioOnChunk_def audioOnFrame_def Let_def call_def notifyCopy_def notifyShared_def)

lemma snapshots_runEvents:
  "\<exists>new. snapshots (runEvents opts es p) = snapshots p @ new"
proof (induction es arbitrary: p)
  case Nil
  then show ?case by simp
next
  case (Cons e es)
  obtain n1 where "snapshots (handleEvent opts e p) = snapshots p @ n1"
    using snapshots_handleEvent by blast
  moreover obtain n2 where
    "snapshots (runEvents opts es (handleEvent opts e p)) = snapshots (handleEvent opts e p) @ n2"
    using Cons.IH by blast
  ultimately show ?case by simp
qed

lemma copied_snapshot_is_stable:
  assumes "n < length (snapshots p)"
  shows "deref (runEvents opts es p) (SnapshotRef n) = deref p (SnapshotRef n)"
proof -
  obtain new where "snapshots (runEvents opts es p) = snapshots p @ new"
    using snapshots_runEvents by blast
  then show ?thesis using assms by (simp add: nth_append)
qed

text \<open>
  Claim C9.  The claim fails at two sites of \<^verbatim>\<open>onAudioTrack\<close>: the \<^verbatim>\<open>onFrame\<close> callback
  of the audio decoder and the path where no audio decoder could be created pass
  \<^verbatim>\<open>convertMediaState\<close> itself, where every other site passes \<^verbatim>\<open>{...convertMediaState}\<close>.
  After a decoded audio frame the observer holds the pipeline's own object: the next
  encoded audio chunk changes what the observer was given (\<open>encodedAudioFrames\<close> goes
  from 0 to 1), and an observer that resets \<open>decodedAudioFrames\<close> on what it was given
  resets the pipeline's counter.  The decoded video frame, for comparison, delivers a copy.
\<close>

theorem audio_frame_delivers_shared_state:
  "trace (audioOnFrame (Some id) initialPipeline) =
     [EncodeFrame, OnMediaStateUpdate ConvertMediaStateRef, FrameClose]
   \<and> encodedAudioFrames (deref (audioOnFrame (Some id) initialPipeline) ConvertMediaStateRef) = 0
   \<and> encodedAudioFrames
        (deref (audioOnChunk (Some id) 2 exampleChunk (audioOnFrame (Some id) initialPipeline))
           ConvertMediaStateRef) = 1
   \<and> decodedAudioFrames (convertMediaState (audioOnFrame (Some resetDecodedAudio) initialPipeline)) = 0
   \<and> trace (snd (onAudioTrack (Some id) ''opus''
        \<lparr> at_numberOfChannels = 2, at_sampleRate = 48000 \<rparr> False True initialPipeline)) =
     [AddTrackAudio ''opus'' 2 48000, CreateAudioEncoder 48000 2 ''opus'', CreateAudioDecoder,
      OnMediaStateUpdate ConvertMediaStateRef]
   \<and> trace (videoOnFrame (Some id) False initialPipeline) =
     [EncodeFrame, OnMediaStateUpdate (SnapshotRef 0), FrameClose]"
  by (simp add: audioOnFrame_def audioOnChunk_def videoOnFrame_def onAudioTrack_def Let_def
      call_def notifyCopy_def notifyShared_def initialPipeline_def resetDecodedAudio_def)


text \<open>What the observer is handed after a decoded audio frame, read off the theorem.\<close>

theorem audio_frame_delivers_shared_state_witness:
  "trace (audioOnFrame (Some id) initialPipeline) =
     [EncodeFrame, OnMediaStateUpdate ConvertMediaStateRef, FrameClose]"
  using audio_frame_delivers_shared_state by simp


section \<open>Incomplete reads of the Matroska parser\<close>

lemma getOffset_rewind:
  "getOffset (decrement (getOffset it - offset) it) = offset"
  by (simp add: getOffset_def decrement_def)

text \<open>
  A Segment or Cluster whose children are incomplete: \<^verbatim>\<open>expectSegment\<close> returns what
  \<^verbatim>\<open>expectChildren\<close> returned, with the iterator where \<^verbatim>\<open>expectChildren\<close> left it and
  with its continuation.
\<close>

lemma expectSegment_container_returns_children_result:
  assumes "bytesRemaining iterator \<noteq> 0"
    and "getMatroskaSegmentId env iterator = (Some segmentId, it1)"
    and "getVint env it1 = (Some len, it2)"
    and "segmentId = ''0x18538067'' \<or> segmentId = ''0x1f43b675''"
    and "expectChildren env st it2 len (segmentId = ''0x18538067'') = Inr (ParseIncomplete segs k, it3, st3)"
  shows "expectSegment env st iterator = Inr (ParseIncomplete segs k, it3, st3)"
  using assms by (auto simp: expectSegment_def Let_def)

lemma readId_segment:
  "readMatroskaId \<lparr> buffered = segmentHeaderBytes, counter = 0 \<rparr> =
     (Some ''0x18538067'', \<lparr> buffered = segmentHeaderBytes, counter = 4 \<rparr>)"
  by (simp add: readMatroskaId_def unread_def segmentHeaderBytes_def vintWidth_def skip_def
      hexByte_def hexDigit_def Let_def)

lemma readVint_segment:
  "readVint \<lparr> buffered = segmentHeaderBytes, counter = 4 \<rparr> =
     (Some 16, \<lparr> buffered = segmentHeaderBytes, counter = 12 \<rparr>)"
  by (simp add: readVint_def unread_def segmentHeaderBytes_def vintWidth_def skip_def Let_def)

lemma readId_cluster_start:
  "readMatroskaId \<lparr> buffered = segmentHeaderBytes, counter = 12 \<rparr> =
     (None, \<lparr> buffered = segmentHeaderBytes, counter = 13 \<rparr>)"
  by (simp add: readMatroskaId_def unread_def segmentHeaderBytes_def vintWidth_def skip_def Let_def)

lemma child_incomplete:
  "exampleExpectSegment (Suc 0) emptyParserState \<lparr> buffered = segmentHeaderBytes, counter = 12 \<rparr> =
     Inr (ParseIncomplete [] ReplayExpectSegment,
          \<lparr> buffered = segmentHeaderBytes, counter = 12 \<rparr>, emptyParserState)"
proof -
  have "bytesRemaining \<lparr> buffered = segmentHeaderBytes, counter = 12 \<rparr> \<noteq> 0"
    by (simp add: bytesRemaining_def byteLength_def getOffset_def segmentHeaderBytes_def)
  then show ?thesis
    by (simp add: expectSegment_def exampleEnv_def readId_cluster_start rewindIncomplete_def
        getOffset_def decrement_def)
qed



lemma childrenLoop_first_incomplete:
  assumes "getOffset it < endOffset"
    and "child st it = Inr (ParseIncomplete segs k, it', st')"
  shows "childrenLoop child (Suc n) endOffset isMain acc st it =
     Inr (ParseIncomplete [] (ContinueChildren (endOffset - getOffset it') acc isMain), it', st')"
  using assms by simp

text \<open>
  Claim C4, as stated, fails.  With the header of a Segment and the first byte of a
  Cluster id buffered, \<^verbatim>\<open>expectSegment\<close>, entered at offset 0, returns
  \<^verbatim>\<open>incomplete\<close> with the iterator at offset 12, behind the header of the Segment, and
  the continuation it returns is the one of \<^verbatim>\<open>expectChildren\<close>.
\<close>

theorem segment_incomplete_keeps_header_consumed:
  "exampleExpectSegment 2 emptyParserState \<lparr> buffered = segmentHeaderBytes, counter = 0 \<rparr> =
     Inr (ParseIncomplete [] (ContinueChildren 16 [] True),
          \<lparr> buffered = segmentHeaderBytes, counter = 12 \<rparr>, emptyParserState)"
proof -
  let ?it12 = "\<lparr> buffered = segmentHeaderBytes, counter = 12 \<rparr>"
  have b: "bytesRemaining \<lparr> buffered = segmentHeaderBytes, counter = 0 \<rparr> \<noteq> 0"
    by (simp add: bytesRemaining_def byteLength_def getOffset_def segmentHeaderBytes_def)
  have two: "(2::nat) = Suc (Suc 0)" by simp
  have lt: "getOffset ?it12 < getOffset ?it12 + 16"
    by simp
  have "childrenLoop (exampleExpectSegment (Suc 0)) (Suc (length segmentHeaderBytes))
          (getOffset ?it12 + 16) True [] emptyParserState ?it12 =
        Inr (ParseIncomplete [] (ContinueChildren (getOffset ?it12 + 16 - getOffset ?it12) [] True),
             ?it12, emptyParserState)"
    by (rule childrenLoop_first_incomplete[where child = "exampleExpectSegment (Suc 0)",
          OF lt child_incomplete])
  then have loop: "childrenLoop (exampleExpectSegment (Suc 0)) (Suc (length segmentHeaderBytes))
          (getOffset ?it12 + 16) True [] emptyParserState ?it12 =
        Inr (ParseIncomplete [] (ContinueChildren 16 [] True), ?it12, emptyParserState)"
    by (simp only: add_diff_cancel_left')
  have ec: "expectChildren (exampleEnv (exampleExpectSegment (Suc 0)) []) emptyParserState
       ?it12 16 True =
      Inr (ParseIncomplete [] (ContinueChildren 16 [] True), ?it12, emptyParserState)"
    unfolding exampleEnv_def MatroskaEnv.select_convs BufferIterator.select_convs
    by (rule loop)
  have "expectSegment (exampleEnv (exampleExpectSegment (Suc 0)) []) emptyParserState
          \<lparr> buffered = segmentHeaderBytes, counter = 0 \<rparr> =
        Inr (ParseIncomplete [] (ContinueChildren 16 [] True), ?it12, emptyParserState)"
  proof (rule expectSegment_container_returns_children_result)
    show "bytesRemaining \<lparr> buffered = segmentHeaderBytes, counter = 0 \<rparr> \<noteq> 0"
      by (rule b)
    show "getMatroskaSegmentId (exampleEnv (exampleExpectSegment (Suc 0)) [])
            \<lparr> buffered = segmentHeaderBytes, counter = 0 \<rparr> =
          (Some ''0x18538067'', \<lparr> buffered = segmentHeaderBytes, counter = 4 \<rparr>)"
      by (simp add: exampleEnv_def readId_segment)
    show "getVint (exampleEnv (exampleExpectSegment (Suc 0)) [])
            \<lparr> buffered = segmentHeaderBytes, counter = 4 \<rparr> = (Some 16, ?it12)"
      by (simp add: exampleEnv_def readVint_segment)
    show "''0x18538067'' = ''0x18538067'' \<or> ''0x18538067'' = ''0x1f43b675''"
      by simp
    show "expectChildren (exampleEnv (exampleExpectSegment (Suc 0)) []) emptyParserState ?it12 16
            (''0x18538067'' = ''0x18538067'') =
          Inr (ParseIncomplete [] (ContinueChildren 16 [] True), ?it12, emptyParserState)"
      using ec by (simp only: refl simp_thms)
  qed
  then show ?thesis by (simp add: two)
qed

text \<open>
  Claim C4, amended.  Whenever \<^verbatim>\<open>expectSegment\<close> returns \<^verbatim>\<open>incomplete\<close> and the
  element it read is not a Segment or a Cluster (nothing is buffered, the id or the size
  cannot be read yet, or the payload of another element is not fully buffered), the
  offset of the iterator on return is the offset on entry, no segment is produced, the
  parser state is unchanged, and the continuation calls \<^verbatim>\<open>expectSegment\<close> again.
\<close>

theorem expectSegment_incomplete_restores_offset:
  assumes "expectSegment env st iterator = Inr (res, it', st')"
    and "isIncomplete res"
    and "\<not> readsContainer env iterator"
  shows "getOffset it' = getOffset iterator \<and> res = ParseIncomplete [] ReplayExpectSegment
         \<and> st' = st"
proof (cases "bytesRemaining iterator = 0")
  case True
  with assms(1) show ?thesis by (simp add: expectSegment_def)
next
  case False
  obtain sid it1 where id: "getMatroskaSegmentId env iterator = (sid, it1)"
    by (cases "getMatroskaSegmentId env iterator")
  show ?thesis
  proof (cases sid)
    case None
    with assms(1) False id show ?thesis
      by (auto simp: expectSegment_def rewindIncomplete_def getOffset_rewind)
  next
    case (Some segmentId)
    obtain ln it2 where v: "getVint env it1 = (ln, it2)"
      by (cases "getVint env it1")
    show ?thesis
    proof (cases ln)
      case None
      with assms(1) False id Some v show ?thesis
        by (auto simp: expectSegment_def rewindIncomplete_def getOffset_rewind)
    next
      case (Some len)
      from assms(3) False id \<open>sid = Some segmentId\<close> v Some
      have nc: "segmentId \<noteq> ''0x18538067''" "segmentId \<noteq> ''0x1f43b675''"
        by (auto simp: readsContainer_def)
      show ?thesis
      proof (cases "byteLength it2 - getOffset it2 < len")
        case True
        with assms(1) False id \<open>sid = Some segmentId\<close> v Some nc show ?thesis
          by (auto simp: expectSegment_def rewindIncomplete_def getOffset_rewind Let_def)
      next
        case nt: False
        with assms(1,2) False id \<open>sid = Some segmentId\<close> v Some nc show ?thesis
          by (auto simp: expectSegment_def Let_def split: sum.splits)
      qed
    qed
  qed
qed

text \<open>The amended claim at a SimpleBlock of size 4 with one payload byte buffered.\<close>

theorem expectSegment_incomplete_restores_offset_witness:
  "expectSegment (exampleEnv (exampleExpectSegment 0) []) emptyParserState
      \<lparr> buffered = shortBlockBytes, counter = 0 \<rparr> =
     Inr (ParseIncomplete [] ReplayExpectSegment,
          \<lparr> buffered = shortBlockBytes, counter = 0 \<rparr>, emptyParserState)
   \<and> \<not> readsContainer (exampleEnv (exampleExpectSegment 0) [])
         \<lparr> buffered = shortBlockBytes, counter = 0 \<rparr>
   \<and> fst (getVint (exampleEnv (exampleExpectSegment 0) [])
          \<lparr> buffered = shortBlockBytes, counter = 1 \<rparr>) = Some 4"
proof -
  let ?env = "exampleEnv (exampleExpectSegment 0) []"
  let ?it = "\<lparr> buffered = shortBlockBytes, counter = 0 \<rparr>"
  have rid: "readMatroskaId ?it = (Some ''0xa3'', \<lparr> buffered = shortBlockBytes, counter = 1 \<rparr>)"
    by (simp add: readMatroskaId_def unread_def shortBlockBytes_def vintWidth_def skip_def
      hexByte_def hexDigit_def Let_def)
  have rv: "readVint \<lparr> buffered = shortBlockBytes, counter = 1 \<rparr> =
      (Some 4, \<lparr> buffered = shortBlockBytes, counter = 2 \<rparr>)"
    by (simp add: readVint_def unread_def shortBlockBytes_def vintWidth_def skip_def Let_def)
  have b: "bytesRemaining ?it \<noteq> 0"
    by (simp add: bytesRemaining_def byteLength_def getOffset_def shortBlockBytes_def)
  have short: "byteLength \<lparr> buffered = shortBlockBytes, counter = 2 \<rparr>
       - getOffset \<lparr> buffered = shortBlockBytes, counter = 2 \<rparr> < 4"
    by (simp add: byteLength_def getOffset_def shortBlockBytes_def)
  have e: "expectSegment ?env emptyParserState ?it =
     Inr (ParseIncomplete [] ReplayExpectSegment, ?it, emptyParserState)"
    using b short
    by (simp add: expectSegment_def exampleEnv_def rid rv rewindIncomplete_def Let_def
        getOffset_def decrement_def)
  have nc: "\<not> readsContainer ?env ?it"
    by (simp add: readsContainer_def exampleEnv_def rid rv)
  have inc: "isIncomplete (ParseIncomplete [] ReplayExpectSegment)" by simp
  from expectSegment_incomplete_restores_offset[OF e inc nc]
  have "getOffset ?it = getOffset ?it \<and> emptyParserState = emptyParserState" by simp
  with e nc rv show ?thesis by (simp add: exampleEnv_def)
qed


section \<open>Keyframes of a BlockGroup\<close>

lemma find_reference_block:
  "(find isReferenceBlock cs \<noteq> None) = (\<exists>c\<in>set cs. isReferenceBlock c)"
  by (auto simp: find_None_iff)

lemma completeBlockGroup_video:
  assumes "find isSimpleBlockOrBlock cs = Some block"
    and "videoSample block = Some partial"
  shows "completeBlockGroup cs st =
    Inr (parserCall (OnVideoSample (vs_trackId partial)
          \<lparr> vs_trackId = vs_trackId partial, vs_timestamp = vs_timestamp partial,
            vs_data = vs_data partial,
            vs_type = (if \<exists>c\<in>set cs. isReferenceBlock c then Delta else Key) \<rparr>) st)"
proof -
  have "completeBlockGroup cs st =
    Inr (parserCall (OnVideoSample (vs_trackId partial)
          (PartialVideoSample.extend partial
             (VideoSample.fields (if find isReferenceBlock cs \<noteq> None then Delta else Key)))) st)"
    using assms by (simp add: completeBlockGroup_def Let_def)
  then show ?thesis
    by (simp only: find_reference_block)
       (simp add: PartialVideoSample.extend_def VideoSample.fields_def)
qed

lemma completeBlockGroup_other:
  assumes "find isSimpleBlockOrBlock cs = Some block"
    and "videoSample block = None"
  shows "completeBlockGroup cs st = Inr st"
  using assms by (simp add: completeBlockGroup_def Let_def)

lemma parseSegment_blockGroup:
  assumes "len \<noteq> 0"
  shows "parseSegment env ''0xa0'' iterator len st headerReadSoFar =
    (case parseBlockGroupSegment env st iterator len of
               Inl e \<Rightarrow> Inl e
             | Inr (groupChildren, it1, st1) \<Rightarrow>
                 (case completeBlockGroup groupChildren st1 of
                    Inl e \<Rightarrow> Inl e
                  | Inr st2 \<Rightarrow> Inr (BlockGroupSegment groupChildren, it1, st2)))"
  using assms
  by (simp add: parseSegment_def matroskaElements_TrackEntry_def matroskaElements_Timestamp_def
      matroskaElements_SimpleBlock_def matroskaElements_Block_def
      matroskaElements_ReferenceBlock_def matroskaElements_BlockAdditions_def)

text \<open>
  Claim C5.  When the block group has been parsed and holds a Block, \<^verbatim>\<open>parseSegment\<close>
  returns the group; if the Block carries a video sample, exactly that sample is handed
  to \<^verbatim>\<open>onVideoSample\<close> for its track, with type \<^verbatim>\<open>key\<close> exactly when the group has no
  ReferenceBlock child and \<^verbatim>\<open>delta\<close> exactly when it has one; if the Block carries no
  video sample, nothing is emitted.
\<close>

theorem blockGroup_keyframe_inference:
  assumes "len \<noteq> 0"
    and "parseBlockGroupSegment env st iterator len = Inr (cs, it1, st1)"
    and "find isSimpleBlockOrBlock cs = Some block"
  shows "\<exists>st2. parseSegment env ''0xa0'' iterator len st headerReadSoFar =
            Inr (BlockGroupSegment cs, it1, st2)
         \<and> (case videoSample block of
               None \<Rightarrow> ps_calls st2 = ps_calls st1
             | Some partial \<Rightarrow>
                 (\<exists>v. ps_calls st2 = ps_calls st1 @ [OnVideoSample (vs_trackId partial) v]
                    \<and> vs_trackId v = vs_trackId partial
                    \<and> vs_timestamp v = vs_timestamp partial
                    \<and> vs_data v = vs_data partial
                    \<and> (vs_type v = Key \<longleftrightarrow> \<not> (\<exists>c\<in>set cs. isReferenceBlock c))
                    \<and> (vs_type v = Delta \<longleftrightarrow> (\<exists>c\<in>set cs. isReferenceBlock c))))"
proof (cases "videoSample block")
  case None
  from completeBlockGroup_other[OF assms(3) None]
  show ?thesis using assms(1,2) None by (simp add: parseSegment_blockGroup)
next
  case (Some partial)
  from completeBlockGroup_video[OF assms(3) Some]
  show ?thesis using assms(1,2) Some
    by (simp add: parseSegment_blockGroup parserCall_def)
qed

text \<open>The claim at a group without and at a group with a ReferenceBlock.\<close>

theorem blockGroup_keyframe_inference_witness:
  "parseSegment (exampleEnv (exampleExpectSegment 0) [SimpleBlockOrBlockSegment (Some exampleSample)])
      ''0xa0'' \<lparr> buffered = [], counter = 0 \<rparr> 8 emptyParserState 2 =
     Inr (BlockGroupSegment [SimpleBlockOrBlockSegment (Some exampleSample)],
          \<lparr> buffered = [], counter = 8 \<rparr>,
          \<lparr> ps_timescale = 1000000,
            ps_calls = [OnVideoSample 1 \<lparr> vs_trackId = 1, vs_timestamp = 1017, vs_data = [],
                                         vs_type = Key \<rparr>] \<rparr>)
   \<and> parseSegment (exampleEnv (exampleExpectSegment 0)
          [SimpleBlockOrBlockSegment (Some exampleSample), ReferenceBlockSegment])
      ''0xa0'' \<lparr> buffered = [], counter = 0 \<rparr> 8 emptyParserState 2 =
     Inr (BlockGroupSegment [SimpleBlockOrBlockSegment (Some exampleSample), ReferenceBlockSegment],
          \<lparr> buffered = [], counter = 8 \<rparr>,
          \<lparr> ps_timescale = 1000000,
            ps_calls = [OnVideoSample 1 \<lparr> vs_trackId = 1, vs_timestamp = 1017, vs_data = [],
                                         vs_type = Delta \<rparr>] \<rparr>)"
proof -
  let ?it = "\<lparr> buffered = [], counter = 0 \<rparr>"
  let ?it8 = "\<lparr> buffered = [], counter = 8 \<rparr>"
  let ?k = "[SimpleBlockOrBlockSegment (Some exampleSample)]"
  let ?d = "[SimpleBlockOrBlockSegment (Some exampleSample), ReferenceBlockSegment]"
  have pk: "parseBlockGroupSegment (exampleEnv (exampleExpectSegment 0) ?k) emptyParserState ?it 8
      = Inr (?k, ?it8, emptyParserState)"
    by (simp add: exampleEnv_def skip_def)
  have pd: "parseBlockGroupSegment (exampleEnv (exampleExpectSegment 0) ?d) emptyParserState ?it 8
      = Inr (?d, ?it8, emptyParserState)"
    by (simp add: exampleEnv_def skip_def)
  have fk: "find isSimpleBlockOrBlock ?k = Some (SimpleBlockOrBlockSegment (Some exampleSample))"
    by simp
  have fd: "find isSimpleBlockOrBlock ?d = Some (SimpleBlockOrBlockSegment (Some exampleSample))"
    by simp
  have n: "(8::int) \<noteq> 0" by simp
  have ek: "completeBlockGroup ?k emptyParserState =
      Inr \<lparr> ps_timescale = 1000000,
            ps_calls = [OnVideoSample 1 \<lparr> vs_trackId = 1, vs_timestamp = 1017, vs_data = [],
                                         vs_type = Key \<rparr>] \<rparr>"
    by (simp add: completeBlockGroup_def exampleSample_def emptyParserState_def parserCall_def
        PartialVideoSample.extend_def VideoSample.fields_def)
  have ed: "completeBlockGroup ?d emptyParserState =
      Inr \<lparr> ps_timescale = 1000000,
            ps_calls = [OnVideoSample 1 \<lparr> vs_trackId = 1, vs_timestamp = 1017, vs_data = [],
                                         vs_type = Delta \<rparr>] \<rparr>"
    by (simp add: completeBlockGroup_def exampleSample_def emptyParserState_def parserCall_def
        PartialVideoSample.extend_def VideoSample.fields_def)
  from blockGroup_keyframe_inference[OF n pk fk, of 2]
       blockGroup_keyframe_inference[OF n pd fd, of 2]
  show ?thesis
    by (simp add: parseSegment_blockGroup pk pd ek ed del: exampleExpectSegment.simps)
qed


end
